theory Spec2Isabelle
  imports Complex_Main "HOL-Library.Word"
begin

unbundle bit_operations_syntax

section \<open>Shared vocabulary of \<open>V8ScriptRuntime.cpp\<close>\<close>

text \<open>
  Byte strings (\<open>std::string\<close>, \<open>String::Utf8Value\<close>, binary payloads) are lists of
  \<open>char\<close>, which in HOL are bytes. The NUL byte is \<open>CHR 0x00\<close>.
\<close>

type_synonym bytes = string

text \<open>
  C++ \<open>%\<close> on \<open>int\<close> truncates towards zero; HOL's \<open>mod\<close> floors. The two agree on
  non-negative operands, which is all the string arena ever sees, but the operator
  is modelled as the language defines it.
\<close>

definition c_rem :: "int \<Rightarrow> int \<Rightarrow> int" where
  "c_rem a b = a - b * (sgn a * sgn b * (\<bar>a\<bar> div \<bar>b\<bar>))"

section \<open>String arena: \<open>m_stringValues\<close>, \<open>m_curStringValue\<close>, \<open>AssignStringValue\<close>\<close>

text \<open>
  \<open>std::unique_ptr<String::Utf8Value> m_stringValues[50]; int m_curStringValue;\<close>
  A slot is an owned buffer or empty (\<open>None\<close>, the null \<open>unique_ptr\<close>). Moving a new
  buffer into a slot destroys the buffer the slot owned before.
\<close>

record string_arena =
  m_stringValues :: "bytes option list"
  m_curStringValue :: int

definition countof_m_stringValues :: int where
  "countof_m_stringValues = 50"

text \<open>The constructor: fifty null slots, \<open>m_curStringValue = 0\<close>.\<close>

definition arena_init :: string_arena where
  "arena_init = \<lparr> m_stringValues = replicate 50 None, m_curStringValue = 0 \<rparr>"

text \<open>
  \<open>AssignStringValue(value, &length)\<close>: the argument is the UTF-8 content of the
  \<open>Utf8Value\<close> built from the script value. The result is the returned buffer and
  the length written through the out-parameter, with the updated arena.
\<close>

definition AssignStringValue :: "bytes \<Rightarrow> string_arena \<Rightarrow> (bytes \<times> nat) \<times> string_arena" where
  "AssignStringValue stringValue a =
     (let str = stringValue;
          len = length stringValue;
          a1 = a\<lparr> m_stringValues := (m_stringValues a)[nat (m_curStringValue a) := Some stringValue] \<rparr>;
          a2 = a1\<lparr> m_curStringValue := c_rem (m_curStringValue a1 + 1) countof_m_stringValues \<rparr>
      in ((str, len), a2))"

text \<open>A run of calls, in order, as a native call with several string arguments makes.\<close>

fun assign_all :: "bytes list \<Rightarrow> string_arena \<Rightarrow> string_arena" where
  "assign_all [] a = a"
| "assign_all (s # ss) a = assign_all ss (snd (AssignStringValue s a))"

text \<open>The shape every arena reachable from the constructor has.\<close>

definition arena_ok :: "string_arena \<Rightarrow> bool" where
  "arena_ok a = (length (m_stringValues a) = 50 \<and> 0 \<le> m_curStringValue a \<and> m_curStringValue a < 50)"

section \<open>Script values and native argument slots\<close>

text \<open>
  A script number is an IEEE-754 double: NaN, an infinity (\<open>True\<close> for the negative
  one), negative zero, or any other finite value (\<open>DFin 0\<close> is positive zero). Finite
  values are carried as rationals, a superset of the finite doubles, so a statement
  for every \<open>double\<close> covers every value the engine can hand over. \<open>float\<close> is
  carried the same way.
\<close>

datatype double = DNaN | DInf bool | DNegZero | DFin rat

datatype float32 = FNaN | FInf bool | FNegZero | FFin rat

text \<open>The macro \<open>NAN\<close>: a \<open>float\<close> quiet NaN.\<close>

definition NAN :: float32 where
  "NAN = FNaN"

text \<open>
  \<open>==\<close> on floating-point operands: a NaN on either side compares unequal, and the
  two zeros compare equal.
\<close>

fun float_eq :: "float32 \<Rightarrow> float32 \<Rightarrow> bool" where
  "float_eq FNaN b = False"
| "float_eq a FNaN = False"
| "float_eq FNegZero b = (b = FNegZero \<or> b = FFin 0)"
| "float_eq a FNegZero = (a = FFin 0)"
| "float_eq a b = (a = b)"

fun double_eq :: "double \<Rightarrow> double \<Rightarrow> bool" where
  "double_eq DNaN b = False"
| "double_eq a DNaN = False"
| "double_eq DNegZero b = (b = DNegZero \<or> b = DFin 0)"
| "double_eq a DNegZero = (a = DFin 0)"
| "double_eq a b = (a = b)"

text \<open>Truncation towards zero, the rule of a floating-to-integer conversion.\<close>

definition trunc_rat :: "rat \<Rightarrow> int" where
  "trunc_rat r = (if 0 \<le> r then \<lfloor>r\<rfloor> else \<lceil>r\<rceil>)"

text \<open>
  \<open>static_cast<int64_t>(value)\<close>. When the truncated value fits \<open>int64_t\<close> the result
  is that value; either zero gives 0. Otherwise (too large, an infinity, NaN) C++
  leaves the conversion undefined; on the x86-64 targets this component is built for,
  the conversion instruction then yields the "integer indefinite" value
  \<open>0x8000000000000000\<close>, and that is what the model returns.
\<close>

definition int64_indefinite :: "64 word" where
  "int64_indefinite = 0x8000000000000000"

definition static_cast_int64 :: "double \<Rightarrow> 64 word" where
  "static_cast_int64 value =
     (case value of
        DFin r \<Rightarrow>
          if - (2 ^ 63) \<le> trunc_rat r \<and> trunc_rat r < 2 ^ 63 then word_of_int (trunc_rat r)
          else int64_indefinite
      | DNegZero \<Rightarrow> 0
      | _ \<Rightarrow> int64_indefinite)"

text \<open>
  The implicit conversion of \<open>intValue\<close> to \<open>double\<close> in \<open>intValue == value\<close>. The only
  integers that reach it are the truncation of a double and \<open>-2^63\<close>; both are doubles
  themselves, so the conversion does not round.
\<close>

definition int64_to_double :: "64 word \<Rightarrow> double" where
  "int64_to_double w = DFin (of_int (sint w))"

text \<open>
  \<open>static_cast<float>(double)\<close>: NaN, the infinities and negative zero keep their
  kind; any other finite value is rounded to single precision by \<open>round32\<close>, a
  parameter of the model.
\<close>

definition static_cast_float :: "(rat \<Rightarrow> float32) \<Rightarrow> double \<Rightarrow> float32" where
  "static_cast_float round32 d =
     (case d of DNaN \<Rightarrow> FNaN | DInf s \<Rightarrow> FInf s | DNegZero \<Rightarrow> FNegZero | DFin r \<Rightarrow> round32 r)"

text \<open>\<open>Value::Int32Value\<close> of a number (ECMAScript ToInt32): NaN, the infinities and
  negative zero give 0, any other finite value is truncated and wrapped to 32 bits.\<close>

definition Int32Value :: "double \<Rightarrow> 32 word" where
  "Int32Value d = (case d of DFin r \<Rightarrow> word_of_int (trunc_rat r) | _ \<Rightarrow> 0)"

text \<open>
  The script values \<open>PushArgument\<close> tells apart, one constructor for each kind it tests
  for. An array buffer view carries its kind (a \<open>Uint8Array\<close> or any other view), the
  bytes of its backing store, its byte offset and its byte length. \<open>JSObject\<close> is
  any other object, with its properties. \<open>JSOther\<close> is any remaining value (a symbol, a bigint), with the string form
  \<open>String::Utf8Value\<close> gives it.
\<close>

datatype view_kind = Uint8ArrayKind | OtherViewKind

datatype jsval =
    JSUndefined
  | JSNull
  | JSBoolean bool
  | JSBooleanObject bool
  | JSNumber double
  | JSString bytes
  | JSExternal nat
  | JSArray "jsval list"
  | JSArrayBufferView view_kind bytes nat nat
  | JSObject "(bytes \<times> jsval) list"
  | JSOther bytes

text \<open>The typed slots of the native call: what each overload of \<open>Push\<close> appends.\<close>

datatype native_arg =
    ArgInt64 "64 word"
  | ArgDouble double
  | ArgFloat float32
  | ArgBool bool
  | ArgInt "32 word"
  | ArgBuffer bytes nat
  | ArgMetaPointer nat

record native_context =
  arguments :: "native_arg list"
  arena :: string_arena

text \<open>
  Modelled from the spec: \<open>ScriptNativeContext::Push\<close> and \<open>PushMetaPointer\<close> are
  declared in \<open>ScriptInvoker.h\<close>, which is not among the sources. Each appends exactly
  one native argument.
\<close>

definition Push :: "native_arg \<Rightarrow> native_context \<Rightarrow> native_context" where
  "Push x ctx = ctx\<lparr> arguments := arguments ctx @ [x] \<rparr>"

definition PushMetaPointer :: "nat \<Rightarrow> native_context \<Rightarrow> native_context" where
  "PushMetaPointer ptr ctx = Push (ArgMetaPointer ptr) ctx"

text \<open>
  Modelled from the spec: \<open>ScriptError\<close> is declared in \<open>ScriptInvoker.h\<close>, which is not
  among the sources. It is a hard error: it raises with the given message and does not
  return. A raise is the \<open>Inl\<close> of the result.
\<close>

definition ScriptError :: "bytes \<Rightarrow> bytes + 'a" where
  "ScriptError msg = Inl msg"

section \<open>\<open>V8ScriptNativeContext::PushArgument\<close>\<close>

text \<open>\<open>array->Get(cxt, idx)\<close>: an index past the end reads \<open>undefined\<close>.\<close>

definition array_Get :: "jsval list \<Rightarrow> nat \<Rightarrow> jsval" where
  "array_Get xs idx = (if idx < length xs then xs ! idx else JSUndefined)"

text \<open>The lambda \<open>getNumber\<close>: \<open>NAN\<close> for an element that is not a number.\<close>

definition getNumber :: "(rat \<Rightarrow> float32) \<Rightarrow> jsval list \<Rightarrow> nat \<Rightarrow> float32" where
  "getNumber round32 array idx =
     (case array_Get array idx of
        JSNumber d \<Rightarrow> static_cast_float round32 d
      | _ \<Rightarrow> NAN)"

text \<open>
  The array branch, statement by statement. Each \<open>if\<close> of the source is one step;
  a step that raises ends the branch.
\<close>

definition vector_length_check :: "jsval list \<Rightarrow> native_context \<Rightarrow> bytes + native_context" where
  "vector_length_check array ctx =
     (if length array < 2 \<or> length array > 4
      then ScriptError ''arrays should be vectors (wrong number of values)''
      else Inr ctx)"

definition vector_push_xy :: "(rat \<Rightarrow> float32) \<Rightarrow> jsval list \<Rightarrow> native_context \<Rightarrow> bytes + native_context" where
  "vector_push_xy round32 array ctx =
     (if length array \<ge> 2 then
        (let x = getNumber round32 array 0; y = getNumber round32 array 1 in
         if float_eq x NAN \<or> float_eq y NAN then ScriptError ''invalid vector array value''
         else Inr (Push (ArgFloat y) (Push (ArgFloat x) ctx)))
      else Inr ctx)"

definition vector_push_z :: "(rat \<Rightarrow> float32) \<Rightarrow> jsval list \<Rightarrow> native_context \<Rightarrow> bytes + native_context" where
  "vector_push_z round32 array ctx =
     (if length array \<ge> 3 then
        (let z = getNumber round32 array 2 in
         if float_eq z NAN then ScriptError ''invalid vector array value''
         else Inr (Push (ArgFloat z) ctx))
      else Inr ctx)"

definition vector_push_w :: "(rat \<Rightarrow> float32) \<Rightarrow> jsval list \<Rightarrow> native_context \<Rightarrow> bytes + native_context" where
  "vector_push_w round32 array ctx =
     (if length array \<ge> 4 then
        (let w = getNumber round32 array 3 in
         if float_eq w NAN then ScriptError ''invalid vector array value''
         else Inr (Push (ArgFloat w) ctx))
      else Inr ctx)"

definition then_step :: "'e + 'a \<Rightarrow> ('a \<Rightarrow> 'e + 'b) \<Rightarrow> 'e + 'b" where
  "then_step r f = (case r of Inl e \<Rightarrow> Inl e | Inr x \<Rightarrow> f x)"

definition PushArgument_array :: "(rat \<Rightarrow> float32) \<Rightarrow> jsval list \<Rightarrow> native_context \<Rightarrow> bytes + native_context" where
  "PushArgument_array round32 array ctx =
     then_step (then_step (then_step (vector_length_check array ctx)
       (vector_push_xy round32 array)) (vector_push_z round32 array)) (vector_push_w round32 array)"

text \<open>
  The cascade of \<open>PushArgument\<close>, in the order of the source. The constructors of
  \<open>jsval\<close> are the kinds the cascade separates, so each test is one equation.
  A boolean object is an object, and \<open>BooleanValue\<close> of an object is \<open>true\<close>.
  The buffer-view branch pushes the address at the view's offset with the byte length
  of the whole backing store.
\<close>

fun PushArgument :: "(rat \<Rightarrow> float32) \<Rightarrow> jsval \<Rightarrow> native_context \<Rightarrow> bytes + native_context" where
  "PushArgument round32 (JSNumber value) ctx =
     (let intValue = static_cast_int64 value in
      if double_eq (int64_to_double intValue) value
      then Inr (Push (ArgInt64 intValue) ctx)
      else Inr (Push (ArgDouble value) ctx))"
| "PushArgument round32 (JSBoolean b) ctx = Inr (Push (ArgBool b) ctx)"
| "PushArgument round32 (JSBooleanObject b) ctx = Inr (Push (ArgBool True) ctx)"
| "PushArgument round32 (JSString s) ctx =
     (let r = AssignStringValue s (arena ctx) in
      Inr (Push (ArgBuffer (fst (fst r)) (snd (fst r))) (ctx\<lparr> arena := snd r \<rparr>)))"
| "PushArgument round32 JSNull ctx = Inr (Push (ArgInt 0) ctx)"
| "PushArgument round32 JSUndefined ctx = Inr (Push (ArgInt 0) ctx)"
| "PushArgument round32 (JSExternal ptr) ctx = Inr (PushMetaPointer ptr ctx)"
| "PushArgument round32 (JSArray array) ctx = PushArgument_array round32 array ctx"
| "PushArgument round32 (JSArrayBufferView kind store byteOffset byteLength) ctx =
     Inr (Push (ArgBuffer (drop byteOffset store) (length store)) ctx)"
| "PushArgument round32 (JSObject props) ctx =
     (case map_of props ''__data'' of
        Some (JSNumber n) \<Rightarrow> Inr (Push (ArgInt (Int32Value n)) ctx)
      | _ \<Rightarrow> ScriptError ''__data field does not contain a number'')"
| "PushArgument round32 (JSOther str) ctx = ScriptError (''invalid V8 value: '' @ str)"

section \<open>\<open>V8_InvokeNative\<close>: arguments in, results out\<close>

text \<open>The argument loop \<open>for (i = baseArgs; i < numArgs; i++)\<close>; the first raise ends it.\<close>

fun push_arguments :: "(rat \<Rightarrow> float32) \<Rightarrow> jsval list \<Rightarrow> native_context \<Rightarrow> bytes + native_context" where
  "push_arguments round32 [] ctx = Inr ctx"
| "push_arguments round32 (a # as) ctx =
     (case PushArgument round32 a ctx of Inl e \<Rightarrow> Inl e | Inr ctx' \<Rightarrow> push_arguments round32 as ctx')"

text \<open>\<open>Array::Set(cxt, index, value)\<close>: writing past the end extends the array.\<close>

definition array_Set :: "jsval list \<Rightarrow> nat \<Rightarrow> jsval \<Rightarrow> jsval list" where
  "array_Set xs i v =
     (if i < length xs then xs[i := v] else xs @ replicate (i - length xs) JSUndefined @ [v])"

text \<open>
  The body of the lambda given to \<open>ProcessResults\<close>, on the captured pair
  \<open>(returnValue, numResults)\<close>; \<open>val\<close> is the result already converted by
  \<open>ProcessResult\<close>. \<open>returnValue.As<Array>()\<close> is only reached with an array.
\<close>

definition result_step :: "jsval \<times> int \<Rightarrow> jsval \<Rightarrow> jsval \<times> int" where
  "result_step st val =
     (let returnValue = fst st; numResults = snd st in
      if numResults = 0 then (val, numResults + 1)
      else
        (let returnValue1 =
               (if numResults = 1 then JSArray (array_Set [] 0 returnValue) else returnValue);
             returnValue2 =
               (case returnValue1 of
                  JSArray xs \<Rightarrow> JSArray (array_Set xs (nat numResults) val)
                | other \<Rightarrow> other)
         in (returnValue2, numResults + 1)))"

text \<open>
  \<open>V8_InvokeNative(args, hash, baseArgs)\<close>. \<open>Invoke\<close> and \<open>ProcessResults\<close> belong to
  \<open>ScriptNativeContext\<close>, which is not among the sources: \<open>invoke\<close> stands for the
  native call (it raises or emits its results in order), and \<open>ProcessResult\<close> for the
  conversion of one result. The value is what \<open>args.GetReturnValue().Set\<close> receives.
\<close>

definition V8_InvokeNative ::
  "(rat \<Rightarrow> float32) \<Rightarrow> (native_arg list \<Rightarrow> bytes + 'r list) \<Rightarrow> ('r \<Rightarrow> jsval) \<Rightarrow>
   jsval list \<Rightarrow> nat \<Rightarrow> native_context \<Rightarrow> bytes + jsval" where
  "V8_InvokeNative round32 invoke ProcessResult args baseArgs context =
     (case push_arguments round32 (drop baseArgs args) context of
        Inl e \<Rightarrow> Inl e
      | Inr context' \<Rightarrow>
          (case invoke (arguments context') of
             Inl e \<Rightarrow> Inl e
           | Inr results \<Rightarrow>
               Inr (fst (foldl result_step (JSUndefined, 0) (map ProcessResult results)))))"

section \<open>Runtime instance and routine slots\<close>

text \<open>
  A guest callable is known by its identity. What a call into the guest does is given
  by a function \<open>guest\<close>, a parameter of every operation that calls out: the call
  either throws (the exception and its stack trace, as strings) or returns a value.
\<close>

type_synonym callable = nat

datatype call_result = Threw bytes bytes | Returned jsval

type_synonym guest = "callable \<Rightarrow> jsval list \<Rightarrow> call_result"

text \<open>
  \<open>result_t\<close>, \<open>FX_S_OK\<close> and \<open>FX_FAILED\<close> come from \<open>fxScripting.h\<close>, which is not
  among the sources. A code is a success code or a failure code; that is all
  \<open>FX_FAILED\<close> tells apart.
\<close>

datatype result_t = Success nat | Failure nat

definition FX_S_OK :: result_t where
  "FX_S_OK = Success 0"

fun FX_FAILED :: "result_t \<Rightarrow> bool" where
  "FX_FAILED (Failure c) = True"
| "FX_FAILED (Success c) = False"

text \<open>
  The fields of \<open>V8ScriptRuntime\<close> that the operations below read or write. A routine
  slot is a \<open>std::function\<close>: empty (\<open>None\<close>) or the closure made by the matching
  \<open>V8_Set...Function\<close>, which is determined by the guest callable it captured.
  \<open>self\<close> is the identity of the object (\<open>this\<close>), \<open>m_taskQueue\<close> says whether the
  microtask queue exists (it is created by \<open>Create\<close>).
\<close>

record V8ScriptRuntime =
  self :: nat
  resourceName :: bytes
  m_taskQueue :: bool
  m_tickRoutine :: "callable option"
  m_eventRoutine :: "callable option"
  m_callRefRoutine :: "callable option"
  m_duplicateRefRoutine :: "callable option"
  m_deleteRefRoutine :: "callable option"
  m_stackTraceRoutine :: "callable option"
  m_unhandledPromiseRejectionRoutine :: "callable option"

definition SetTickRoutine :: "callable \<Rightarrow> V8ScriptRuntime \<Rightarrow> V8ScriptRuntime" where
  "SetTickRoutine tickRoutine rt =
     (if m_tickRoutine rt = None then rt\<lparr> m_tickRoutine := Some tickRoutine \<rparr> else rt)"

definition SetEventRoutine :: "callable \<Rightarrow> V8ScriptRuntime \<Rightarrow> V8ScriptRuntime" where
  "SetEventRoutine eventRoutine rt =
     (if m_eventRoutine rt = None then rt\<lparr> m_eventRoutine := Some eventRoutine \<rparr> else rt)"

definition SetCallRefRoutine :: "callable \<Rightarrow> V8ScriptRuntime \<Rightarrow> V8ScriptRuntime" where
  "SetCallRefRoutine routine rt =
     (if m_callRefRoutine rt = None then rt\<lparr> m_callRefRoutine := Some routine \<rparr> else rt)"

definition SetDuplicateRefRoutine :: "callable \<Rightarrow> V8ScriptRuntime \<Rightarrow> V8ScriptRuntime" where
  "SetDuplicateRefRoutine routine rt =
     (if m_duplicateRefRoutine rt = None then rt\<lparr> m_duplicateRefRoutine := Some routine \<rparr> else rt)"

definition SetDeleteRefRoutine :: "callable \<Rightarrow> V8ScriptRuntime \<Rightarrow> V8ScriptRuntime" where
  "SetDeleteRefRoutine routine rt =
     (if m_deleteRefRoutine rt = None then rt\<lparr> m_deleteRefRoutine := Some routine \<rparr> else rt)"

definition SetStackTraceRoutine :: "callable \<Rightarrow> V8ScriptRuntime \<Rightarrow> V8ScriptRuntime" where
  "SetStackTraceRoutine routine rt =
     (if m_stackTraceRoutine rt = None then rt\<lparr> m_stackTraceRoutine := Some routine \<rparr> else rt)"

definition SetUnhandledPromiseRejectionRoutine :: "callable \<Rightarrow> V8ScriptRuntime \<Rightarrow> V8ScriptRuntime" where
  "SetUnhandledPromiseRejectionRoutine routine rt =
     (if m_unhandledPromiseRejectionRoutine rt = None
      then rt\<lparr> m_unhandledPromiseRejectionRoutine := Some routine \<rparr> else rt)"

text \<open>The seven registration entry points, as one operation on a kind.\<close>

datatype routine_kind =
  TickKind | EventKind | CallRefKind | DuplicateRefKind | DeleteRefKind | StackTraceKind
  | UnhandledRejectionKind

fun set_routine :: "routine_kind \<Rightarrow> callable \<Rightarrow> V8ScriptRuntime \<Rightarrow> V8ScriptRuntime" where
  "set_routine TickKind f rt = SetTickRoutine f rt"
| "set_routine EventKind f rt = SetEventRoutine f rt"
| "set_routine CallRefKind f rt = SetCallRefRoutine f rt"
| "set_routine DuplicateRefKind f rt = SetDuplicateRefRoutine f rt"
| "set_routine DeleteRefKind f rt = SetDeleteRefRoutine f rt"
| "set_routine StackTraceKind f rt = SetStackTraceRoutine f rt"
| "set_routine UnhandledRejectionKind f rt = SetUnhandledPromiseRejectionRoutine f rt"

fun slot :: "routine_kind \<Rightarrow> V8ScriptRuntime \<Rightarrow> callable option" where
  "slot TickKind rt = m_tickRoutine rt"
| "slot EventKind rt = m_eventRoutine rt"
| "slot CallRefKind rt = m_callRefRoutine rt"
| "slot DuplicateRefKind rt = m_duplicateRefRoutine rt"
| "slot DeleteRefKind rt = m_deleteRefRoutine rt"
| "slot StackTraceKind rt = m_stackTraceRoutine rt"
| "slot UnhandledRejectionKind rt = m_unhandledPromiseRejectionRoutine rt"

text \<open>Any run of registration calls, as a script may make them.\<close>

fun register_all :: "(routine_kind \<times> callable) list \<Rightarrow> V8ScriptRuntime \<Rightarrow> V8ScriptRuntime" where
  "register_all [] rt = rt"
| "register_all (kf # rest) rt = register_all rest (set_routine (fst kf) (snd kf) rt)"

section \<open>Environment scope: \<open>V8PushEnvironment\<close>, \<open>RunMicrotasks\<close>\<close>

text \<open>
  The process-wide state the scope touches: the GC depth counter \<open>g_isV8InGc\<close>, the
  thread's \<open>g_currentV8Runtime\<close>, the clock \<open>msec()\<close> reads, and the runtimes whose
  microtask queue is running a checkpoint at present (the engine's
  \<open>IsRunningMicrotasks\<close> of each queue). \<open>events\<close> records, in
  order, what has happened: scopes entered and left, microtask checkpoints performed,
  guest callables called, messages given to the trace sink, stack frames submitted.
  The engine lock (\<open>v8::Locker\<close>) is re-entrant per thread and is left out.
\<close>

datatype event =
    Entered nat
  | Exited nat
  | Checkpoint nat
  | Called callable "jsval list"
  | Traced bytes
  | Frame bytes

record engine =
  g_isV8InGc :: int
  g_currentV8Runtime :: "nat option"
  msec :: int
  running_microtasks :: "nat list"
  events :: "event list"

definition emit :: "event \<Rightarrow> engine \<Rightarrow> engine" where
  "emit ev e = e\<lparr> events := events e @ [ev] \<rparr>"


definition GCEpilogue :: "engine \<Rightarrow> engine" where
  "GCEpilogue e = e\<lparr> g_isV8InGc := g_isV8InGc e - 1 \<rparr>"

text \<open>
  \<open>MicrotaskQueue::PerformCheckpoint\<close>, the engine's part. While the queue is already
  running a checkpoint the call does nothing. Otherwise the checkpoint is performed:
  the queue is marked as running, its microtasks run, and the mark is removed.
  \<open>microtasks\<close> is what the microtasks pending in the queue do; they are guest code
  and may call host functions that open scopes of their own. The queue is created
  with the explicit policy and this file opens no \<open>MicrotasksScope\<close>, so the
  engine's other reasons to skip a checkpoint do not arise.
\<close>

definition PerformCheckpoint :: "(engine \<Rightarrow> engine) \<Rightarrow> V8ScriptRuntime \<Rightarrow> engine \<Rightarrow> engine" where
  "PerformCheckpoint microtasks rt e =
     (if self rt \<in> set (running_microtasks e) then e
      else
        (let e1 = emit (Checkpoint (self rt)) (e\<lparr> running_microtasks := self rt # running_microtasks e \<rparr>);
             e2 = microtasks e1
         in e2\<lparr> running_microtasks := removeAll (self rt) (running_microtasks e2) \<rparr>))"

definition RunMicrotasks :: "(engine \<Rightarrow> engine) \<Rightarrow> V8ScriptRuntime \<Rightarrow> engine \<Rightarrow> engine" where
  "RunMicrotasks microtasks rt e =
     (if m_taskQueue rt then
        (if g_isV8InGc e = 0 then PerformCheckpoint microtasks rt e else e)
      else e)"

text \<open>A queue with nothing pending: its checkpoint runs no microtask.\<close>

definition no_microtasks :: "engine \<Rightarrow> engine" where
  "no_microtasks e = e"

text \<open>
  \<open>V8PushEnvironment\<close>: the constructor saves \<open>g_currentV8Runtime\<close> in
  \<open>m_lastV8Runtime\<close> and makes the runtime current. The members are destroyed in the
  reverse of their declaration: first \<open>m_microtaskScope\<close>, whose destructor calls
  \<open>RunMicrotasks\<close>, then \<open>m_scoped\<close>, whose function restores \<open>g_currentV8Runtime\<close>.
  Nothing in the class looks at whether another scope is already open.
\<close>

record V8PushEnvironment =
  m_lastV8Runtime :: "nat option"

definition V8PushEnvironment_enter :: "V8ScriptRuntime \<Rightarrow> engine \<Rightarrow> V8PushEnvironment \<times> engine" where
  "V8PushEnvironment_enter runtime e =
     (\<lparr> m_lastV8Runtime = g_currentV8Runtime e \<rparr>,
      emit (Entered (self runtime)) (e\<lparr> g_currentV8Runtime := Some (self runtime) \<rparr>))"

definition V8PushEnvironment_exit ::
  "(engine \<Rightarrow> engine) \<Rightarrow> V8PushEnvironment \<Rightarrow> V8ScriptRuntime \<Rightarrow> engine \<Rightarrow> engine" where
  "V8PushEnvironment_exit microtasks pushed runtime e =
     (let e1 = RunMicrotasks microtasks runtime e;
          e2 = e1\<lparr> g_currentV8Runtime := m_lastV8Runtime pushed \<rparr>
      in emit (Exited (self runtime)) e2)"

text \<open>
  A block \<open>{ V8PushEnvironment pushed(this); body }\<close>; \<open>microtasks\<close> is what the
  microtasks pending at its end do.
\<close>

definition in_scope ::
  "(engine \<Rightarrow> engine) \<Rightarrow> V8ScriptRuntime \<Rightarrow> (engine \<Rightarrow> 'a \<times> engine) \<Rightarrow> engine \<Rightarrow> 'a \<times> engine" where
  "in_scope microtasks runtime body e =
     (let entered = V8PushEnvironment_enter runtime e;
          ran = body (snd entered)
      in (fst ran, V8PushEnvironment_exit microtasks (fst entered) runtime (snd ran)))"





definition called :: "engine \<Rightarrow> callable list" where
  "called e = concat (map (\<lambda>ev. case ev of Called f as \<Rightarrow> [f] | _ \<Rightarrow> []) (events e))"


section \<open>The routine closures made by the \<open>V8_Set...Function\<close> entry points\<close>

definition Call :: "guest \<Rightarrow> callable \<Rightarrow> jsval list \<Rightarrow> engine \<Rightarrow> call_result \<times> engine" where
  "Call g f as e = (g f as, emit (Called f as) e)"

text \<open>\<open>ScriptTrace\<close> with the format \<open>Error calling system ... in resource %s: %s\nstack:\n%s\n\<close>.\<close>

definition ScriptTrace_error :: "bytes \<Rightarrow> V8ScriptRuntime \<Rightarrow> bytes \<Rightarrow> bytes \<Rightarrow> engine \<Rightarrow> engine" where
  "ScriptTrace_error what runtime str stack e =
     emit (Traced (what @ '' in resource '' @ resourceName runtime @ '': '' @ str
                   @ [CHR 0x0A] @ ''stack:'' @ [CHR 0x0A] @ stack @ [CHR 0x0A])) e"

definition Int32_New :: "32 word \<Rightarrow> jsval" where
  "Int32_New w = JSNumber (DFin (of_int (sint w)))"

text \<open>\<open>Uint8Array::New(buffer, 0, size)\<close> over a fresh buffer holding a copy of the bytes.\<close>

definition Uint8Array_New :: "bytes \<Rightarrow> jsval" where
  "Uint8Array_New bs = JSArrayBufferView Uint8ArrayKind bs 0 (length bs)"

text \<open>The bytes \<open>CopyContents\<close> reads from a view; no bytes from anything else.\<close>

fun view_contents :: "jsval \<Rightarrow> bytes" where
  "view_contents (JSArrayBufferView kind store byteOffset byteLength) = take byteLength (drop byteOffset store)"
| "view_contents other = []"

fun IsArrayBufferView :: "jsval \<Rightarrow> bool" where
  "IsArrayBufferView (JSArrayBufferView kind store byteOffset byteLength) = True"
| "IsArrayBufferView other = False"

text \<open>
  \<open>Value::IsInt32\<close>: a number whose value is an integer in the signed 32-bit range
  and is not negative zero.
\<close>

fun IsInt32 :: "jsval \<Rightarrow> bool" where
  "IsInt32 (JSNumber (DFin r)) =
     (of_int (trunc_rat r) = r \<and> - (2 ^ 31) \<le> trunc_rat r \<and> trunc_rat r < 2 ^ 31)"
| "IsInt32 other = False"

text \<open>\<open>Value::Int32Value\<close>; it is only reached with a number here.\<close>

fun Value_Int32Value :: "jsval \<Rightarrow> 32 word" where
  "Value_Int32Value (JSNumber d) = Int32Value d"
| "Value_Int32Value other = 0"

text \<open>The closure of \<open>V8_SetTickFunction\<close>.\<close>

definition tick_closure :: "guest \<Rightarrow> V8ScriptRuntime \<Rightarrow> callable \<Rightarrow> engine \<Rightarrow> engine" where
  "tick_closure g runtime tickFunction e =
     (let time = JSNumber (DFin (of_int (msec e)));
          r = Call g tickFunction [time] e
      in case fst r of
           Threw str stack \<Rightarrow>
             ScriptTrace_error ''Error calling system tick function'' runtime str stack (snd r)
         | Returned v \<Rightarrow> snd r)"

text \<open>The closure of \<open>V8_SetEventFunction\<close>.\<close>

definition event_closure ::
  "guest \<Rightarrow> V8ScriptRuntime \<Rightarrow> callable \<Rightarrow> bytes \<Rightarrow> bytes \<Rightarrow> bytes \<Rightarrow> engine \<Rightarrow> engine" where
  "event_closure g runtime function eventName eventPayload eventSource e =
     (let r = Call g function [JSString eventName, Uint8Array_New eventPayload, JSString eventSource] e
      in case fst r of
           Threw str stack \<Rightarrow>
             ScriptTrace_error ''Error calling system event handling function'' runtime str stack (snd r)
         | Returned v \<Rightarrow> snd r)"

text \<open>The closure of \<open>V8_SetCallRefFunction\<close>; the result is the buffer \<open>rv\<close>, null or filled.\<close>

definition callRef_closure ::
  "guest \<Rightarrow> V8ScriptRuntime \<Rightarrow> callable \<Rightarrow> 32 word \<Rightarrow> bytes \<Rightarrow> engine \<Rightarrow> bytes option \<times> engine" where
  "callRef_closure g runtime function refId argsSerialized e =
     (let r = Call g function [Int32_New refId, Uint8Array_New argsSerialized] e
      in case fst r of
           Threw str stack \<Rightarrow>
             (None, ScriptTrace_error ''Error calling system call ref function'' runtime str stack (snd r))
         | Returned v \<Rightarrow>
             (if IsArrayBufferView v then Some (view_contents v) else None, snd r))"

text \<open>The closure of \<open>V8_SetDeleteRefFunction\<close>.\<close>

definition deleteRef_closure ::
  "guest \<Rightarrow> V8ScriptRuntime \<Rightarrow> callable \<Rightarrow> 32 word \<Rightarrow> engine \<Rightarrow> engine" where
  "deleteRef_closure g runtime function refId e =
     (let r = Call g function [Int32_New refId] e
      in case fst r of
           Threw str stack \<Rightarrow>
             ScriptTrace_error ''Error calling system delete ref function'' runtime str stack (snd r)
         | Returned v \<Rightarrow> snd r)"

text \<open>The closure of \<open>V8_SetDuplicateRefFunction\<close>.\<close>

definition duplicateRef_closure ::
  "guest \<Rightarrow> V8ScriptRuntime \<Rightarrow> callable \<Rightarrow> 32 word \<Rightarrow> engine \<Rightarrow> 32 word \<times> engine" where
  "duplicateRef_closure g runtime function refId e =
     (let r = Call g function [Int32_New refId] e
      in case fst r of
           Threw str stack \<Rightarrow>
             (- 1, ScriptTrace_error ''Error calling system duplicate ref function'' runtime str stack (snd r))
         | Returned realValue \<Rightarrow>
             (if IsInt32 realValue then (Value_Int32Value realValue, snd r) else (- 1, snd r)))"

text \<open>
  The closure of \<open>V8_SetStackTraceRoutine\<close>. The boundaries are null or carry a hint.
  The result is the pair \<open>(*blob, *size)\<close>: untouched (\<open>None\<close>) unless the guest
  returned a buffer view.
\<close>

definition boundary_arg :: "32 word option \<Rightarrow> jsval" where
  "boundary_arg b = (case b of None \<Rightarrow> JSNull | Some hint \<Rightarrow> Int32_New hint)"

definition stackTrace_closure ::
  "guest \<Rightarrow> V8ScriptRuntime \<Rightarrow> callable \<Rightarrow> 32 word option \<Rightarrow> 32 word option \<Rightarrow> engine
   \<Rightarrow> bytes option \<times> engine" where
  "stackTrace_closure g runtime function start finish e =
     (let r = Call g function [boundary_arg start, boundary_arg finish] e
      in case fst r of
           Threw str stack \<Rightarrow>
             (None, ScriptTrace_error ''Error calling system stack trace function'' runtime str stack (snd r))
         | Returned v \<Rightarrow>
             (if IsArrayBufferView v then Some (view_contents v) else None, snd r))"

text \<open>
  The closure of \<open>V8_SetUnhandledPromiseRejectionRoutine\<close>, on the event number, the
  promise and the value of the message (\<open>undefined\<close> when it has none).
\<close>

definition rejection_closure ::
  "guest \<Rightarrow> V8ScriptRuntime \<Rightarrow> callable \<Rightarrow> int \<Rightarrow> jsval \<Rightarrow> jsval option \<Rightarrow> engine \<Rightarrow> engine" where
  "rejection_closure g runtime function ev promise val e =
     (let v = (case val of None \<Rightarrow> JSUndefined | Some x \<Rightarrow> x);
          r = Call g function [JSNumber (DFin (of_int ev)), promise, v] e
      in case fst r of
           Threw str stack \<Rightarrow>
             emit (Traced (''Unhandled error during handling of unhandled promise rejection in resource ''
                   @ resourceName runtime @ '': '' @ str @ [CHR 0x0A] @ ''stack:'' @ [CHR 0x0A]
                   @ stack @ [CHR 0x0A])) (snd r)
         | Returned x \<Rightarrow> snd r)"

section \<open>The dispatch surface of \<open>V8ScriptRuntime\<close>\<close>

text \<open>
  Each operation returns its \<open>result_t\<close>, its out-parameters and the engine state it
  leaves. On the server build \<open>Tick\<close> chooses between a locking and a non-locking
  scope; the two differ only in the lock. What microtasks the guest has pending when
  the scope of an operation ends is the guest's doing and is not part of the
  operation: the operations are given with an empty queue.
\<close>

definition Tick :: "guest \<Rightarrow> V8ScriptRuntime \<Rightarrow> engine \<Rightarrow> result_t \<times> engine" where
  "Tick g rt e =
     (case m_tickRoutine rt of
        Some f \<Rightarrow> (FX_S_OK, snd (in_scope no_microtasks rt (\<lambda>e'. ((), tick_closure g rt f e')) e))
      | None \<Rightarrow> (FX_S_OK, e))"

definition TriggerEvent ::
  "guest \<Rightarrow> V8ScriptRuntime \<Rightarrow> bytes \<Rightarrow> bytes \<Rightarrow> bytes \<Rightarrow> engine \<Rightarrow> result_t \<times> engine" where
  "TriggerEvent g rt eventName eventPayload eventSource e =
     (case m_eventRoutine rt of
        Some f \<Rightarrow>
          (FX_S_OK, snd (in_scope no_microtasks rt (\<lambda>e'. ((), event_closure g rt f eventName eventPayload eventSource e')) e))
      | None \<Rightarrow> (FX_S_OK, e))"

text \<open>
  Modelled from the spec: \<open>OMPtr::CopyTo\<close> is not among the sources. It stores the
  buffer, null or not, in the out-parameter and reports success (a missing result is
  a valid outcome, not a failure).
\<close>

definition CopyTo :: "bytes option \<Rightarrow> result_t \<times> bytes option" where
  "CopyTo rv = (FX_S_OK, rv)"

definition CallRef ::
  "guest \<Rightarrow> V8ScriptRuntime \<Rightarrow> 32 word \<Rightarrow> bytes \<Rightarrow> engine \<Rightarrow> (result_t \<times> bytes option) \<times> engine" where
  "CallRef g rt refIdx argsSerialized e =
     (let retval = None in
      case m_callRefRoutine rt of
        Some f \<Rightarrow>
          in_scope no_microtasks rt (\<lambda>e'. let rv = callRef_closure g rt f refIdx argsSerialized e'
                             in (CopyTo (fst rv), snd rv)) e
      | None \<Rightarrow> ((FX_S_OK, retval), e))"

definition DuplicateRef ::
  "guest \<Rightarrow> V8ScriptRuntime \<Rightarrow> 32 word \<Rightarrow> engine \<Rightarrow> (result_t \<times> 32 word) \<times> engine" where
  "DuplicateRef g rt refIdx e =
     (let outRefIdx = - 1 in
      case m_duplicateRefRoutine rt of
        Some f \<Rightarrow>
          (let r = in_scope no_microtasks rt (duplicateRef_closure g rt f refIdx) e
           in ((FX_S_OK, fst r), snd r))
      | None \<Rightarrow> ((FX_S_OK, outRefIdx), e))"

definition RemoveRef :: "guest \<Rightarrow> V8ScriptRuntime \<Rightarrow> 32 word \<Rightarrow> engine \<Rightarrow> result_t \<times> engine" where
  "RemoveRef g rt refIdx e =
     (case m_deleteRefRoutine rt of
        Some f \<Rightarrow> (FX_S_OK, snd (in_scope no_microtasks rt (\<lambda>e'. ((), deleteRef_closure g rt f refIdx e')) e))
      | None \<Rightarrow> (FX_S_OK, e))"

text \<open>
  \<open>WalkStack\<close>: \<open>unpack\<close> stands for the msgpack decoding of the blob into its
  elements, each packed again; every element goes to the visitor.
\<close>

definition WalkStack ::
  "guest \<Rightarrow> (bytes \<Rightarrow> bytes list) \<Rightarrow> V8ScriptRuntime \<Rightarrow> 32 word option \<Rightarrow> 32 word option \<Rightarrow> engine
   \<Rightarrow> result_t \<times> engine" where
  "WalkStack g unpack rt boundaryStart boundaryEnd e =
     (case m_stackTraceRoutine rt of
        Some f \<Rightarrow>
          (FX_S_OK,
           snd (in_scope no_microtasks rt
             (\<lambda>e'. let r = stackTrace_closure g rt f boundaryStart boundaryEnd e'
                    in case fst r of
                         Some out \<Rightarrow> ((), foldl (\<lambda>e'' fr. emit (Frame fr) e'') (snd r) (unpack out))
                       | None \<Rightarrow> ((), snd r)) e))
      | None \<Rightarrow> (FX_S_OK, e))"

definition HandlePromiseRejection ::
  "guest \<Rightarrow> V8ScriptRuntime \<Rightarrow> int \<Rightarrow> jsval \<Rightarrow> jsval option \<Rightarrow> engine \<Rightarrow> engine" where
  "HandlePromiseRejection g rt ev promise val e =
     (case m_unhandledPromiseRejectionRoutine rt of
        Some f \<Rightarrow> rejection_closure g rt f ev promise val e
      | None \<Rightarrow> e)"

text \<open>One invocation of the routine of a kind, with the arguments the host gives it.\<close>

datatype dispatch =
    DoTick
  | DoTriggerEvent bytes bytes bytes
  | DoCallRef "32 word" bytes
  | DoDuplicateRef "32 word"
  | DoRemoveRef "32 word"
  | DoWalkStack "32 word option" "32 word option"
  | DoPromiseRejection int jsval "jsval option"

fun kind_of :: "dispatch \<Rightarrow> routine_kind" where
  "kind_of DoTick = TickKind"
| "kind_of (DoTriggerEvent n p s) = EventKind"
| "kind_of (DoCallRef i a) = CallRefKind"
| "kind_of (DoDuplicateRef i) = DuplicateRefKind"
| "kind_of (DoRemoveRef i) = DeleteRefKind"
| "kind_of (DoWalkStack s t) = StackTraceKind"
| "kind_of (DoPromiseRejection ev p v) = UnhandledRejectionKind"

fun run_dispatch :: "guest \<Rightarrow> (bytes \<Rightarrow> bytes list) \<Rightarrow> dispatch \<Rightarrow> V8ScriptRuntime \<Rightarrow> engine \<Rightarrow> engine" where
  "run_dispatch g unpack DoTick rt e = snd (Tick g rt e)"
| "run_dispatch g unpack (DoTriggerEvent n p s) rt e = snd (TriggerEvent g rt n p s e)"
| "run_dispatch g unpack (DoCallRef i a) rt e = snd (CallRef g rt i a e)"
| "run_dispatch g unpack (DoDuplicateRef i) rt e = snd (DuplicateRef g rt i e)"
| "run_dispatch g unpack (DoRemoveRef i) rt e = snd (RemoveRef g rt i e)"
| "run_dispatch g unpack (DoWalkStack s t) rt e = snd (WalkStack g unpack rt s t e)"
| "run_dispatch g unpack (DoPromiseRejection ev p v) rt e = HandlePromiseRejection g rt ev p v e"

text \<open>A runtime as the constructor leaves it, and an idle engine, for concrete runs.\<close>

definition runtime_new :: "nat \<Rightarrow> bytes \<Rightarrow> V8ScriptRuntime" where
  "runtime_new i name =
     \<lparr> self = i, resourceName = name, m_taskQueue = True,
       m_tickRoutine = None, m_eventRoutine = None, m_callRefRoutine = None,
       m_duplicateRefRoutine = None, m_deleteRefRoutine = None, m_stackTraceRoutine = None,
       m_unhandledPromiseRejectionRoutine = None \<rparr>"

definition engine_idle :: engine where
  "engine_idle = \<lparr> g_isV8InGc = 0, g_currentV8Runtime = None, msec = 0, running_microtasks = [],
                    events = [] \<rparr>"

section \<open>Function references: \<open>RefAndPersistent\<close>, trampoline, weak callback, drain\<close>

text \<open>
  \<open>std::string::c_str()\<close> handed to a \<open>char*\<close> parameter that carries no length: the
  receiver is given a NUL-terminated string, the bytes before the first NUL. The same
  holds where a \<open>std::string\<close> is assigned from a \<open>char*\<close>.
\<close>

definition c_str :: "bytes \<Rightarrow> bytes" where
  "c_str s = takeWhile (\<lambda>c. c \<noteq> CHR 0x00) s"

text \<open>
  The host's call-ref interface, as this file consumes it:
  \<open>InvokeFunctionReference(refId, args, argsLength, &retval)\<close> gives a result code
  and the buffer it stored (\<open>None\<close> when it stored none); \<open>GetLastErrorText(&error)\<close>
  gives the text it stored (\<open>None\<close> when it left the pointer as it was).
\<close>

record IScriptHost =
  InvokeFunctionReference :: "bytes \<Rightarrow> bytes \<Rightarrow> result_t \<times> bytes option"
  GetLastErrorText :: "bytes option"

text \<open>
  \<open>struct RefAndPersistent\<close>: the identifier owned by \<open>fx::FunctionRef ref\<close>, the
  persistent handle to the guest-visible function (\<open>None\<close> when empty or reset) and
  the runtime it belongs to.
\<close>

record RefAndPersistent =
  ref :: bytes
  handle :: "callable option"
  runtime :: nat

text \<open>
  The entries that exist, by address, the address the next \<open>new\<close> returns, and the
  queue \<open>g_cleanUpFuncRefs\<close>, oldest first.
\<close>

record ref_state =
  entries :: "nat \<rightharpoonup> RefAndPersistent"
  next_address :: nat
  g_cleanUpFuncRefs :: "nat list"

definition ref_state_empty :: ref_state where
  "ref_state_empty = \<lparr> entries = Map.empty, next_address = 0, g_cleanUpFuncRefs = [] \<rparr>"

text \<open>
  \<open>V8_InvokeFunctionReference\<close>, the trampoline behind every wrapper. \<open>refData\<close> is the
  entry the wrapper was made with and \<open>payload\<close> is \<open>args[0]\<close>, taken as a buffer
  view. \<open>Inl\<close> is the script \<open>Error\<close> thrown, with its message; \<open>Inr\<close> is the value
  returned to the script.
\<close>

definition V8_InvokeFunctionReference :: "IScriptHost \<Rightarrow> RefAndPersistent \<Rightarrow> jsval \<Rightarrow> bytes + jsval" where
  "V8_InvokeFunctionReference scriptHost refData payload =
     (let argsBuffer = view_contents payload;
          r = InvokeFunctionReference scriptHost (c_str (ref refData)) argsBuffer
      in if FX_FAILED (fst r) then
           (let error = (case GetLastErrorText scriptHost of None \<Rightarrow> ''Unknown'' | Some text \<Rightarrow> text)
            in Inl error)
         else
           (let retLength = (case snd r of None \<Rightarrow> 0 | Some buf \<Rightarrow> length buf);
                outValueBuffer =
                  (if retLength > 0
                   then (case snd r of None \<Rightarrow> [] | Some buf \<Rightarrow> take retLength buf)
                   else replicate retLength (CHR 0x00))
            in Inr (Uint8Array_New outValueBuffer)))"

text \<open>
  \<open>V8_MakeFunctionReference\<close>. \<open>arg0\<close> is \<open>args[0]\<close>: a string gives its UTF-8 bytes
  up to the first NUL, a \<open>Uint8Array\<close> the bytes it views, anything else the empty
  identifier. \<open>outFunction\<close> is the answer of \<open>Function::New\<close>:
  the new wrapper, or \<open>None\<close> when the engine could not make one. The wrapper is
  returned to the script; on failure the entry is deleted at once.
\<close>

definition refString_of :: "jsval \<Rightarrow> bytes" where
  "refString_of arg0 =
     (case arg0 of
        JSString utf8 \<Rightarrow> c_str utf8
      | JSArrayBufferView kind store byteOffset byteLength \<Rightarrow>
          (case kind of
             Uint8ArrayKind \<Rightarrow> take byteLength (drop byteOffset store)
           | OtherViewKind \<Rightarrow> [])
      | _ \<Rightarrow> [])"

definition V8_MakeFunctionReference ::
  "V8ScriptRuntime \<Rightarrow> jsval \<Rightarrow> callable option \<Rightarrow> ref_state \<Rightarrow> callable option \<times> ref_state" where
  "V8_MakeFunctionReference rt arg0 outFunction st =
     (let refString = refString_of arg0;
          data = next_address st;
          entry = \<lparr> ref = refString, handle = None, runtime = self rt \<rparr>;
          st1 = st\<lparr> entries := (entries st)(data \<mapsto> entry), next_address := next_address st + 1 \<rparr>
      in case outFunction of
           Some outFn \<Rightarrow>
             (Some outFn, st1\<lparr> entries := (entries st1)(data \<mapsto> entry\<lparr> handle := Some outFn \<rparr>) \<rparr>)
         | None \<Rightarrow>
             (None, st1\<lparr> entries := (entries st1)(data := None) \<rparr>))"

text \<open>
  \<open>FnRefWeakCallback\<close>, called by the garbage collector with the address of an entry
  whose wrapper has become unreachable.
\<close>

definition FnRefWeakCallback :: "nat \<Rightarrow> ref_state \<Rightarrow> ref_state" where
  "FnRefWeakCallback data st =
     (let st1 = (case entries st data of
                   Some entry \<Rightarrow> st\<lparr> entries := (entries st)(data \<mapsto> entry\<lparr> handle := None \<rparr>) \<rparr>
                 | None \<Rightarrow> st)
      in st1\<lparr> g_cleanUpFuncRefs := g_cleanUpFuncRefs st1 @ [data] \<rparr>)"

text \<open>
  The \<open>OnTick\<close> handler of \<open>initFunction\<close>:
  \<open>while (g_cleanUpFuncRefs.try_pop(deleteRef)) delete deleteRef;\<close>
\<close>

fun drain_loop :: "nat list \<Rightarrow> (nat \<rightharpoonup> RefAndPersistent) \<Rightarrow> (nat \<rightharpoonup> RefAndPersistent)" where
  "drain_loop [] es = es"
| "drain_loop (deleteRef # queue) es = drain_loop queue (es(deleteRef := None))"

definition OnTick_drain :: "ref_state \<Rightarrow> ref_state" where
  "OnTick_drain st =
     st\<lparr> entries := drain_loop (g_cleanUpFuncRefs st) (entries st), g_cleanUpFuncRefs := [] \<rparr>"

text \<open>
  The life of the registry: references are made, the collector reports wrappers of
  existing entries as unreachable, and the host ticks.
\<close>

datatype ref_event =
    Make V8ScriptRuntime jsval "callable option"
  | Collected nat
  | DrainTick

fun ref_step :: "ref_event \<Rightarrow> ref_state \<Rightarrow> ref_state" where
  "ref_step (Make rt arg0 outFunction) st = snd (V8_MakeFunctionReference rt arg0 outFunction st)"
| "ref_step (Collected data) st = FnRefWeakCallback data st"
| "ref_step DrainTick st = OnTick_drain st"

fun ref_run :: "ref_event list \<Rightarrow> ref_state \<Rightarrow> ref_state" where
  "ref_run [] st = st"
| "ref_run (ev # evs) st = ref_run evs (ref_step ev st)"

text \<open>A host that answers every call with the identifier it was given, and one that fails.\<close>

definition echo_host :: IScriptHost where
  "echo_host = \<lparr> InvokeFunctionReference = (\<lambda>refId args. (FX_S_OK, Some refId)),
                 GetLastErrorText = None \<rparr>"

definition failing_host :: IScriptHost where
  "failing_host = \<lparr> InvokeFunctionReference = (\<lambda>refId args. (Failure 1, None)),
                    GetLastErrorText = Some ''no such reference'' \<rparr>"

definition reverse_host :: IScriptHost where
  "reverse_host = \<lparr> InvokeFunctionReference = (\<lambda>refId args. (FX_S_OK, Some (refId @ '':'' @ rev args))),
                    GetLastErrorText = None \<rparr>"

section \<open>Concrete natives, guests and scope bodies for the runs below\<close>

text \<open>A rounding to single precision that is exact on the values used below.\<close>

definition keep_exact :: "rat \<Rightarrow> float32" where
  "keep_exact r = FFin r"

text \<open>A native that gives its arguments back as its results, and a conversion of them.\<close>

definition echo_native :: "native_arg list \<Rightarrow> bytes + native_arg list" where
  "echo_native as = Inr as"

fun show_arg :: "native_arg \<Rightarrow> jsval" where
  "show_arg (ArgInt64 w) = JSNumber (DFin (of_int (sint w)))"
| "show_arg (ArgBool b) = JSBoolean b"
| "show_arg other = JSNull"

text \<open>A guest in which every callable returns the same value, and one that always throws.\<close>

definition returns_always :: "jsval \<Rightarrow> guest" where
  "returns_always v f as = Returned v"

definition throws_always :: guest where
  "throws_always f as = Threw ''Error: boom'' ''at boom''"

definition no_frames :: "bytes \<Rightarrow> bytes list" where
  "no_frames blob = []"



section \<open>Properties of the string arena\<close>

lemma c_rem_nonneg: "0 \<le> a \<Longrightarrow> 0 < b \<Longrightarrow> c_rem a b = a mod b"
  by (simp add: c_rem_def sgn_if minus_mult_div_eq_mod)

lemma arena_init_ok: "arena_ok arena_init"
  by (simp add: arena_ok_def arena_init_def)

lemma AssignStringValue_cursor:
  "arena_ok a \<Longrightarrow>
     m_curStringValue (snd (AssignStringValue s a)) = (m_curStringValue a + 1) mod 50"
  by (simp add: AssignStringValue_def Let_def arena_ok_def countof_m_stringValues_def c_rem_nonneg)

lemma AssignStringValue_slots:
  "m_stringValues (snd (AssignStringValue s a)) = (m_stringValues a)[nat (m_curStringValue a) := Some s]"
  by (simp add: AssignStringValue_def Let_def)

lemma AssignStringValue_ok: "arena_ok a \<Longrightarrow> arena_ok (snd (AssignStringValue s a))"
  using AssignStringValue_cursor [of a s]
  by (simp add: arena_ok_def AssignStringValue_slots)

lemma assign_all_ok: "arena_ok a \<Longrightarrow> arena_ok (assign_all ss a)"
  by (induction ss arbitrary: a) (simp_all add: AssignStringValue_ok)

lemma assign_all_cursor:
  "arena_ok a \<Longrightarrow> m_curStringValue (assign_all ss a) = (m_curStringValue a + int (length ss)) mod 50"
proof (induction ss arbitrary: a)
  case Nil
  then show ?case by (simp add: arena_ok_def)
next
  case (Cons s ss)
  have "m_curStringValue (assign_all (s # ss) a)
        = ((m_curStringValue a + 1) mod 50 + int (length ss)) mod 50"
    using Cons.IH [OF AssignStringValue_ok [OF Cons.prems]] AssignStringValue_cursor [OF Cons.prems]
    by simp
  also have "\<dots> = (m_curStringValue a + int (length (s # ss))) mod 50"
    by (simp add: mod_simps algebra_simps)
  finally show ?case .
qed

text \<open>
  Fewer than fifty further strings leave the slot that is one behind the cursor alone;
  this is the slot the most recent call filled.
\<close>

lemma assign_all_keeps:
  "arena_ok a \<Longrightarrow> length ss < 50 \<Longrightarrow> j < 50 \<Longrightarrow>
   int j = (m_curStringValue a + 49) mod 50 \<Longrightarrow>
   m_stringValues (assign_all ss a) ! j = m_stringValues a ! j"
proof (induction ss arbitrary: a rule: rev_induct)
  case Nil
  then show ?case by simp
next
  case (snoc s ss)
  have split: "assign_all (ss @ [s]) a = snd (AssignStringValue s (assign_all ss a))" for a
    by (induction ss arbitrary: a) simp_all
  have ok: "arena_ok (assign_all ss a)" using snoc.prems(1) by (rule assign_all_ok)
  have cur: "m_curStringValue (assign_all ss a) = (m_curStringValue a + int (length ss)) mod 50"
    using snoc.prems(1) by (rule assign_all_cursor)
  have len: "length ss < 49" using snoc.prems(2) by simp
  have ne: "nat (m_curStringValue (assign_all ss a)) \<noteq> j"
  proof
    assume "nat (m_curStringValue (assign_all ss a)) = j"
    then have "(m_curStringValue a + int (length ss)) mod 50 = (m_curStringValue a + 49) mod 50"
      using cur snoc.prems(4) ok by (simp add: arena_ok_def)
    then have "(m_curStringValue a + int (length ss) - m_curStringValue a) mod 50
               = (m_curStringValue a + 49 - m_curStringValue a) mod 50"
      by (rule mod_diff_cong) simp
    then have "(int (length ss)) mod 50 = 49 mod (50::int)"
      by simp
    then show False using len by simp
  qed
  have "m_stringValues (assign_all (ss @ [s]) a) ! j = m_stringValues (assign_all ss a) ! j"
    using ne by (simp add: split AssignStringValue_slots)
  also have "\<dots> = m_stringValues a ! j"
    using snoc.IH [OF snoc.prems(1) _ snoc.prems(3) snoc.prems(4)] len by simp
  finally show ?case .
qed

lemma arena_ok_index: "arena_ok a \<Longrightarrow> nat (m_curStringValue a) < length (m_stringValues a)"
  unfolding arena_ok_def by linarith

lemma assign_all_snoc: "assign_all (ss @ [t]) a = snd (AssignStringValue t (assign_all ss a))"
  by (induction ss arbitrary: a) simp_all

lemma arena_fifty_live:
  assumes ok: "arena_ok a" and len: "length ss = 49"
  shows "m_stringValues (assign_all (s # ss) a) ! nat (m_curStringValue a) = Some s"
proof -
  let ?a1 = "snd (AssignStringValue s a)"
  let ?j = "nat (m_curStringValue a)"
  have ok1: "arena_ok ?a1" using ok by (rule AssignStringValue_ok)
  have j: "?j < 50" using arena_ok_index [OF ok] ok by (simp add: arena_ok_def)
  have cur1: "m_curStringValue ?a1 = (m_curStringValue a + 1) mod 50"
    using ok by (rule AssignStringValue_cursor)
  have "(m_curStringValue ?a1 + 49) mod 50 = (m_curStringValue a + 50) mod 50"
    by (simp add: cur1 mod_simps)
  also have "\<dots> = m_curStringValue a"
    using ok by (simp add: arena_ok_def)
  finally have wrap: "int ?j = (m_curStringValue ?a1 + 49) mod 50"
    using ok by (simp add: arena_ok_def)
  have "m_stringValues (assign_all ss ?a1) ! ?j = m_stringValues ?a1 ! ?j"
    using assign_all_keeps [OF ok1 _ j wrap, of ss] by (simp add: len)
  also have "\<dots> = Some s"
    using ok j by (simp add: AssignStringValue_slots arena_ok_def)
  finally show ?thesis by simp
qed

lemma arena_fifty_first_overwrites:
  assumes ok: "arena_ok a" and len: "length ss = 49"
  shows "m_stringValues (assign_all (s # ss @ [t]) a) ! nat (m_curStringValue a) = Some t"
proof -
  let ?b = "assign_all (s # ss) a"
  have okb: "arena_ok ?b" using ok by (rule assign_all_ok)
  have "m_curStringValue ?b = (m_curStringValue a + int (length (s # ss))) mod 50"
    using ok by (rule assign_all_cursor)
  then have curb: "m_curStringValue ?b = m_curStringValue a"
    using ok len by (simp add: arena_ok_def)
  have "assign_all (s # ss @ [t]) a = snd (AssignStringValue t ?b)"
    using assign_all_snoc [of "s # ss" t a] by simp
  then show ?thesis
    using arena_ok_index [OF okb] curb by (simp add: AssignStringValue_slots)
qed

text \<open>
  C9. The string arena is a circular table of exactly fifty slots. Every arena built by
  the constructor and any run of \<open>AssignStringValue\<close> calls has fifty slots and a cursor
  in \<open>0..49\<close>. On such an arena a call returns the new string with its length, stores
  it in the slot at the cursor, leaves the table at fifty slots and moves the cursor to
  \<open>(cursor + 1) mod 50\<close>. Counting from any such point, the first string is still in
  its slot after fifty strings, and the fifty-first string replaces it there.
\<close>

theorem C9_string_arena_circular:
  "arena_ok (assign_all pre arena_init) \<and>
   (arena_ok a \<longrightarrow>
      fst (AssignStringValue s a) = (s, length s) \<and>
      m_stringValues (snd (AssignStringValue s a)) = (m_stringValues a)[nat (m_curStringValue a) := Some s] \<and>
      length (m_stringValues (snd (AssignStringValue s a))) = 50 \<and>
      m_curStringValue (snd (AssignStringValue s a)) = (m_curStringValue a + 1) mod 50 \<and>
      0 \<le> m_curStringValue (snd (AssignStringValue s a)) \<and>
      m_curStringValue (snd (AssignStringValue s a)) < 50 \<and>
      (length ss = 49 \<longrightarrow>
         m_stringValues (assign_all (s # ss) a) ! nat (m_curStringValue a) = Some s \<and>
         m_stringValues (assign_all (s # ss @ [t]) a) ! nat (m_curStringValue a) = Some t))"
proof -
  have reach: "arena_ok (assign_all pre arena_init)"
    using arena_init_ok by (rule assign_all_ok)
  have step: "fst (AssignStringValue s a) = (s, length s)"
    by (simp add: AssignStringValue_def Let_def)
  {
    assume ok: "arena_ok a"
    have ok': "arena_ok (snd (AssignStringValue s a))" using ok by (rule AssignStringValue_ok)
    have "length (m_stringValues (snd (AssignStringValue s a))) = 50
          \<and> 0 \<le> m_curStringValue (snd (AssignStringValue s a))
          \<and> m_curStringValue (snd (AssignStringValue s a)) < 50"
      using ok' by (simp add: arena_ok_def)
    moreover have "m_curStringValue (snd (AssignStringValue s a)) = (m_curStringValue a + 1) mod 50"
      using ok by (rule AssignStringValue_cursor)
    moreover have "length ss = 49 \<longrightarrow>
         m_stringValues (assign_all (s # ss) a) ! nat (m_curStringValue a) = Some s \<and>
         m_stringValues (assign_all (s # ss @ [t]) a) ! nat (m_curStringValue a) = Some t"
      using arena_fifty_live [OF ok] arena_fifty_first_overwrites [OF ok] by blast
    ultimately have "fst (AssignStringValue s a) = (s, length s) \<and>
      m_stringValues (snd (AssignStringValue s a)) = (m_stringValues a)[nat (m_curStringValue a) := Some s] \<and>
      length (m_stringValues (snd (AssignStringValue s a))) = 50 \<and>
      m_curStringValue (snd (AssignStringValue s a)) = (m_curStringValue a + 1) mod 50 \<and>
      0 \<le> m_curStringValue (snd (AssignStringValue s a)) \<and>
      m_curStringValue (snd (AssignStringValue s a)) < 50 \<and>
      (length ss = 49 \<longrightarrow>
         m_stringValues (assign_all (s # ss) a) ! nat (m_curStringValue a) = Some s \<and>
         m_stringValues (assign_all (s # ss @ [t]) a) ! nat (m_curStringValue a) = Some t)"
      using step AssignStringValue_slots [of s a] by blast
  }
  then show ?thesis using reach by blast
qed

text \<open>
  The same at a concrete arena: three strings were pushed before, so the cursor is 3;
  then \<open>''first''\<close>, forty-nine times \<open>''mid''\<close>, and \<open>''last''\<close>.
\<close>

theorem C9_string_arena_circular_witness:
  "arena_ok (assign_all [''a'', ''b'', ''c''] arena_init) \<and>
   length (replicate 49 ''mid'') = 49 \<and>
   m_curStringValue (assign_all [''a'', ''b'', ''c''] arena_init) = 3 \<and>
   m_curStringValue (snd (AssignStringValue ''first'' (assign_all [''a'', ''b'', ''c''] arena_init))) = 4 \<and>
   m_stringValues (assign_all (''first'' # replicate 49 ''mid'') (assign_all [''a'', ''b'', ''c''] arena_init)) ! 3
     = Some ''first'' \<and>
   m_stringValues (assign_all (''first'' # replicate 49 ''mid'' @ [''last''])
       (assign_all [''a'', ''b'', ''c''] arena_init)) ! 3 = Some ''last''"
proof -
  let ?a = "assign_all [''a'', ''b'', ''c''] arena_init"
  have ok: "arena_ok ?a"
    using C9_string_arena_circular [of "[''a'', ''b'', ''c'']"] by blast
  have len: "length (replicate 49 ''mid'') = 49" by simp
  have cur: "m_curStringValue ?a = 3"
    using assign_all_cursor [OF arena_init_ok, of "[''a'', ''b'', ''c'']"]
    by (simp add: arena_init_def)
  have all: "m_curStringValue (snd (AssignStringValue ''first'' ?a)) = (m_curStringValue ?a + 1) mod 50 \<and>
     m_stringValues (assign_all (''first'' # replicate 49 ''mid'') ?a) ! nat (m_curStringValue ?a) = Some ''first'' \<and>
     m_stringValues (assign_all (''first'' # replicate 49 ''mid'' @ [''last'']) ?a) ! nat (m_curStringValue ?a) = Some ''last''"
    using C9_string_arena_circular [of "[]" ?a "''first''" "replicate 49 ''mid''" "''last''"] ok len
    by blast
  show ?thesis using ok len cur all by (simp only: cur) simp
qed
section \<open>Properties of the number branch of \<open>PushArgument\<close>\<close>

lemma sint_int64:
  "- (2 ^ 63) \<le> n \<Longrightarrow> n < 2 ^ 63 \<Longrightarrow> sint (word_of_int n :: 64 word) = n"
  by (simp add: sint_sbintrunc' signed_take_bit_int_eq_self)

lemma sint_int64_indefinite: "sint int64_indefinite = - (2 ^ 63)"
  by (simp add: int64_indefinite_def)

lemma trunc_rat_of_int: "trunc_rat (of_int n) = n"
  by (simp add: trunc_rat_def)

lemma double_eq_DFin: "double_eq (DFin a) v = (v = DFin a \<or> (a = 0 \<and> v = DNegZero))"
  by (cases v) auto

text \<open>
  The test \<open>intValue == value\<close> succeeds exactly on the integers that fit \<open>int64_t\<close>
  and on negative zero.
\<close>

lemma int_test_iff:
  "double_eq (int64_to_double (static_cast_int64 v)) v
     = ((\<exists>n. v = DFin (of_int n) \<and> - (2 ^ 63) \<le> n \<and> n < 2 ^ 63) \<or> v = DNegZero)"
proof (cases v)
  case DNaN
  then show ?thesis by (simp add: double_eq_DFin int64_to_double_def)
next
  case (DInf s)
  then show ?thesis by (simp add: double_eq_DFin int64_to_double_def)
next
  case DNegZero
  then show ?thesis by (simp add: double_eq_DFin int64_to_double_def static_cast_int64_def)
next
  case (DFin r)
  show ?thesis
  proof (cases "- (2 ^ 63) \<le> trunc_rat r \<and> trunc_rat r < 2 ^ 63")
    case True
    then have "static_cast_int64 v = word_of_int (trunc_rat r)"
      by (simp add: DFin static_cast_int64_def)
    then have "double_eq (int64_to_double (static_cast_int64 v)) v = (r = of_int (trunc_rat r))"
      using True by (simp add: DFin double_eq_DFin int64_to_double_def sint_int64)
    also have "\<dots> = (\<exists>n. r = of_int n \<and> - (2 ^ 63) \<le> n \<and> n < 2 ^ 63)"
      using True by (metis trunc_rat_of_int)
    finally show ?thesis by (simp add: DFin)
  next
    case False
    then have "static_cast_int64 v = int64_indefinite"
      by (auto simp add: DFin static_cast_int64_def)
    then have "double_eq (int64_to_double (static_cast_int64 v)) v = (r = of_int (- (2 ^ 63)))"
      by (auto simp add: DFin double_eq_DFin int64_to_double_def sint_int64_indefinite)
    moreover have "r \<noteq> of_int (- (2 ^ 63))"
      using False trunc_rat_of_int [of "- (2 ^ 63)"] by auto
    moreover have "\<not> (\<exists>n. r = of_int n \<and> - (2 ^ 63) \<le> n \<and> n < 2 ^ 63)"
      using False trunc_rat_of_int by auto
    ultimately show ?thesis by (simp add: DFin)
  qed
qed

lemma five_halves_not_int: "(5 / 2 :: rat) \<noteq> of_int n"
proof
  assume "(5 / 2 :: rat) = of_int n"
  then have "(of_int (2 * n) :: rat) = of_int 5" by simp
  then have "2 * n = 5" by (simp only: of_int_eq_iff)
  then show False by presburger
qed

text \<open>
  C4. A number that is an integer \<open>n\<close> within the range of a 64-bit signed integer (its
  truncation equals it) is pushed as the 64-bit integer \<open>n\<close>, and reading that slot as
  a signed integer gives \<open>n\<close> back. Negative zero, whose truncation is zero and equal
  to it, is pushed as the integer 0. Every other number (a fraction, an integer
  outside the range, an infinity, NaN) is pushed as the double itself.
\<close>

theorem C4_number_int64_or_double:
  "(\<forall>n. v = DFin (of_int n) \<and> - (2 ^ 63) \<le> n \<and> n < 2 ^ 63 \<longrightarrow>
        PushArgument round32 (JSNumber v) ctx = Inr (Push (ArgInt64 (word_of_int n)) ctx) \<and>
        sint (word_of_int n :: 64 word) = n) \<and>
   (v = DNegZero \<longrightarrow> PushArgument round32 (JSNumber v) ctx = Inr (Push (ArgInt64 0) ctx)) \<and>
   ((\<nexists>n. v = DFin (of_int n) \<and> - (2 ^ 63) \<le> n \<and> n < 2 ^ 63) \<and> v \<noteq> DNegZero \<longrightarrow>
        PushArgument round32 (JSNumber v) ctx = Inr (Push (ArgDouble v) ctx))"
proof (intro conjI allI impI)
  fix n
  assume h: "v = DFin (of_int n) \<and> - (2 ^ 63) \<le> n \<and> n < 2 ^ 63"
  then have test: "double_eq (int64_to_double (static_cast_int64 v)) v"
    unfolding int_test_iff by blast
  have "static_cast_int64 v = word_of_int n"
    using h by (simp add: static_cast_int64_def trunc_rat_of_int)
  then show "PushArgument round32 (JSNumber v) ctx = Inr (Push (ArgInt64 (word_of_int n)) ctx)"
    using test by (simp add: Let_def)
  show "sint (word_of_int n :: 64 word) = n"
    using h by (simp add: sint_int64)
next
  assume z: "v = DNegZero"
  then have "double_eq (int64_to_double (static_cast_int64 v)) v"
    unfolding int_test_iff by blast
  then show "PushArgument round32 (JSNumber v) ctx = Inr (Push (ArgInt64 0) ctx)"
    using z by (simp add: Let_def static_cast_int64_def)
next
  assume "(\<nexists>n. v = DFin (of_int n) \<and> - (2 ^ 63) \<le> n \<and> n < 2 ^ 63) \<and> v \<noteq> DNegZero"
  then have "\<not> double_eq (int64_to_double (static_cast_int64 v)) v"
    unfolding int_test_iff by blast
  then show "PushArgument round32 (JSNumber v) ctx = Inr (Push (ArgDouble v) ctx)"
    by (simp add: Let_def)
qed

text \<open>
  The number 7 goes out as the integer 7, negative zero as the integer 0, the number
  5/2 as a double.
\<close>

theorem C4_number_int64_or_double_witness:
  "PushArgument keep_exact (JSNumber (DFin 7)) \<lparr> arguments = [], arena = arena_init \<rparr>
     = Inr \<lparr> arguments = [ArgInt64 7], arena = arena_init \<rparr> \<and>
   sint (7 :: 64 word) = 7 \<and>
   PushArgument keep_exact (JSNumber DNegZero) \<lparr> arguments = [], arena = arena_init \<rparr>
     = Inr \<lparr> arguments = [ArgInt64 0], arena = arena_init \<rparr> \<and>
   PushArgument keep_exact (JSNumber (DFin (5 / 2))) \<lparr> arguments = [], arena = arena_init \<rparr>
     = Inr \<lparr> arguments = [ArgDouble (DFin (5 / 2))], arena = arena_init \<rparr>"
proof -
  let ?ctx = "\<lparr> arguments = [], arena = arena_init \<rparr>"
  have seven: "DFin 7 = DFin (of_int 7) \<and> - (2 ^ 63) \<le> (7::int) \<and> (7::int) < 2 ^ 63"
    by simp
  have a: "PushArgument keep_exact (JSNumber (DFin 7)) ?ctx = Inr (Push (ArgInt64 (word_of_int 7)) ?ctx)
           \<and> sint (word_of_int 7 :: 64 word) = 7"
    using C4_number_int64_or_double [of "DFin 7" keep_exact ?ctx] seven by blast
  have none: "(\<nexists>n. DFin (5 / 2) = DFin (of_int n) \<and> - (2 ^ 63) \<le> n \<and> n < 2 ^ 63)
              \<and> DFin (5 / 2) \<noteq> DNegZero"
    using five_halves_not_int by simp
  have b: "PushArgument keep_exact (JSNumber (DFin (5 / 2))) ?ctx = Inr (Push (ArgDouble (DFin (5 / 2))) ?ctx)"
    using C4_number_int64_or_double [of "DFin (5 / 2)" keep_exact ?ctx] none by blast
  have z: "PushArgument keep_exact (JSNumber DNegZero) ?ctx = Inr (Push (ArgInt64 0) ?ctx)"
    using C4_number_int64_or_double [of DNegZero keep_exact ?ctx] by blast
  show ?thesis using a b z by (simp add: Push_def)
qed

section \<open>Properties of the array branch of \<open>PushArgument\<close>\<close>

lemma float_eq_NAN: "float_eq x NAN = False"
  by (cases x) (simp_all add: NAN_def)

lemma PushArgument_pair:
  "PushArgument round32 (JSArray [a, b]) ctx =
     Inr (ctx\<lparr> arguments := arguments ctx @
        [ArgFloat (getNumber round32 [a, b] 0), ArgFloat (getNumber round32 [a, b] 1)] \<rparr>)"
  by (simp add: PushArgument_array_def then_step_def vector_length_check_def vector_push_xy_def
      vector_push_z_def vector_push_w_def float_eq_NAN Push_def Let_def)

lemma PushArgument_triple:
  "PushArgument round32 (JSArray [a, b, c]) ctx =
     Inr (ctx\<lparr> arguments := arguments ctx @
        [ArgFloat (getNumber round32 [a, b, c] 0), ArgFloat (getNumber round32 [a, b, c] 1),
         ArgFloat (getNumber round32 [a, b, c] 2)] \<rparr>)"
  by (simp add: PushArgument_array_def then_step_def vector_length_check_def vector_push_xy_def
      vector_push_z_def vector_push_w_def float_eq_NAN Push_def Let_def)

lemma PushArgument_quad:
  "PushArgument round32 (JSArray [a, b, c, d]) ctx =
     Inr (ctx\<lparr> arguments := arguments ctx @
        [ArgFloat (getNumber round32 [a, b, c, d] 0), ArgFloat (getNumber round32 [a, b, c, d] 1),
         ArgFloat (getNumber round32 [a, b, c, d] 2), ArgFloat (getNumber round32 [a, b, c, d] 3)] \<rparr>)"
  by (simp add: PushArgument_array_def then_step_def vector_length_check_def vector_push_xy_def
      vector_push_z_def vector_push_w_def float_eq_NAN Push_def Let_def)

text \<open>An array of any other length is refused.\<close>

lemma PushArgument_wrong_length:
  "length xs < 2 \<or> 4 < length xs \<Longrightarrow>
   PushArgument round32 (JSArray xs) ctx = Inl ''arrays should be vectors (wrong number of values)''"
  by (auto simp add: PushArgument_array_def then_step_def vector_length_check_def ScriptError_def)

text \<open>
  The three tests \<open>x == NAN\<close> are false for every \<open>x\<close>, so the array branch never raises
  the error for a bad element, whatever the array holds.
\<close>

lemma PushArgument_array_never_invalid:
  "PushArgument round32 (JSArray xs) ctx \<noteq> Inl ''invalid vector array value''"
  by (simp add: PushArgument_array_def then_step_def vector_length_check_def vector_push_xy_def
      vector_push_z_def vector_push_w_def float_eq_NAN ScriptError_def Let_def)

text \<open>
  C3. The claim asks that an array with a non-numeric element be refused with
  \<open>invalid vector array value\<close>. The code compares the converted element with \<open>NAN\<close>
  by \<open>==\<close>, which is false even for a NaN, so the array \<open>[1, "x"]\<close> is accepted and the
  string goes out as a NaN float after the first component.
\<close>

theorem C3_nonnumeric_element_is_pushed:
  "PushArgument round32 (JSArray [JSNumber (DFin 1), JSString ''x''])
       \<lparr> arguments = [], arena = arena_init \<rparr>
     = Inr \<lparr> arguments = [ArgFloat (round32 1), ArgFloat FNaN], arena = arena_init \<rparr>"
  by (simp add: PushArgument_array_def then_step_def vector_length_check_def vector_push_xy_def
      vector_push_z_def vector_push_w_def float_eq_NAN Push_def Let_def
      getNumber_def array_Get_def static_cast_float_def)
     (simp add: NAN_def)

section \<open>Properties of the result convention of \<open>V8_InvokeNative\<close>\<close>

lemma result_step_first: "result_step (JSUndefined, 0) a = (a, 1)"
  by (simp add: result_step_def)

lemma result_step_second: "result_step (a, 1) b = (JSArray [a, b], 2)"
  by (simp add: result_step_def array_Set_def Let_def)

lemma result_step_later:
  "2 \<le> length xs \<Longrightarrow>
   result_step (JSArray xs, int (length xs)) v = (JSArray (xs @ [v]), int (length (xs @ [v])))"
  by (auto simp add: result_step_def array_Set_def Let_def)

lemma results_later:
  "2 \<le> length xs \<Longrightarrow>
   foldl result_step (JSArray xs, int (length xs)) vs = (JSArray (xs @ vs), int (length (xs @ vs)))"
proof (induction vs arbitrary: xs)
  case Nil
  then show ?case by simp
next
  case (Cons v vs)
  have "foldl result_step (JSArray xs, int (length xs)) (v # vs)
        = foldl result_step (JSArray (xs @ [v]), int (length (xs @ [v]))) vs"
    using result_step_later [OF Cons.prems] by simp
  also have "\<dots> = (JSArray ((xs @ [v]) @ vs), int (length ((xs @ [v]) @ vs)))"
    using Cons.prems by (intro Cons.IH) simp
  finally show ?case by simp
qed

lemma results_two_or_more:
  "fst (foldl result_step (JSUndefined, 0) (a # b # vs)) = JSArray (a # b # vs)"
proof -
  have "foldl result_step (JSUndefined, 0) (a # b # vs)
        = foldl result_step (JSArray [a, b], int (length [a, b])) vs"
    by (simp add: result_step_first result_step_second)
  then show ?thesis
    using results_later [of "[a, b]" vs] by simp
qed

text \<open>
  C5. When the arguments are accepted and the native call emits the results \<open>rs\<close>, the
  script sees: \<open>undefined\<close> for no result; the converted result itself for one; and
  for two or more the array of all converted results in the order of emission. The
  array comes into being at the second result, with the first result in slot 0.
\<close>

theorem C5_result_convention:
  "push_arguments round32 (drop baseArgs args) context = Inr context' \<and>
   invoke (arguments context') = Inr rs \<longrightarrow>
     V8_InvokeNative round32 invoke ProcessResult args baseArgs context =
       Inr (case map ProcessResult rs of
              [] \<Rightarrow> JSUndefined
            | [a] \<Rightarrow> a
            | a # b # vs \<Rightarrow> JSArray (a # b # vs)) \<and>
     result_step (result_step (JSUndefined, 0) x) y = (JSArray [x, y], 2)"
proof (intro impI conjI)
  assume h: "push_arguments round32 (drop baseArgs args) context = Inr context' \<and>
             invoke (arguments context') = Inr rs"
  have "fst (foldl result_step (JSUndefined, 0) vs)
        = (case vs of [] \<Rightarrow> JSUndefined | [a] \<Rightarrow> a | a # b # ws \<Rightarrow> JSArray (a # b # ws))" for vs
  proof (cases vs)
    case Nil
    then show ?thesis by simp
  next
    case (Cons a ws)
    show ?thesis
    proof (cases ws)
      case Nil
      then show ?thesis using Cons by (simp add: result_step_first)
    next
      case (Cons b us)
      then show ?thesis
        using \<open>vs = a # ws\<close> results_two_or_more [of a b us] by (simp only: list.case)
    qed
  qed
  then show "V8_InvokeNative round32 invoke ProcessResult args baseArgs context =
       Inr (case map ProcessResult rs of
              [] \<Rightarrow> JSUndefined
            | [a] \<Rightarrow> a
            | a # b # vs \<Rightarrow> JSArray (a # b # vs))"
    using h by (simp add: V8_InvokeNative_def)
next
  show "result_step (result_step (JSUndefined, 0) x) y = (JSArray [x, y], 2)"
    by (simp add: result_step_first result_step_second)
qed

text \<open>The echoing native, called with none, one and three arguments.\<close>

theorem C5_result_convention_witness:
  "V8_InvokeNative keep_exact echo_native show_arg [] 0 \<lparr> arguments = [], arena = arena_init \<rparr>
     = Inr JSUndefined \<and>
   V8_InvokeNative keep_exact echo_native show_arg [JSBoolean True] 0 \<lparr> arguments = [], arena = arena_init \<rparr>
     = Inr (JSBoolean True) \<and>
   V8_InvokeNative keep_exact echo_native show_arg [JSBoolean True, JSBoolean False, JSNull] 0
       \<lparr> arguments = [], arena = arena_init \<rparr>
     = Inr (JSArray [JSBoolean True, JSBoolean False, JSNull])"
proof -
  let ?c = "\<lparr> arguments = [], arena = arena_init \<rparr>"
  have p0: "push_arguments keep_exact (drop 0 []) ?c = Inr ?c \<and> echo_native (arguments ?c) = Inr []"
    by (simp add: echo_native_def)
  have p1: "push_arguments keep_exact (drop 0 [JSBoolean True]) ?c = Inr (Push (ArgBool True) ?c)
            \<and> echo_native (arguments (Push (ArgBool True) ?c)) = Inr [ArgBool True]"
    by (simp add: echo_native_def Push_def)
  have p3: "push_arguments keep_exact (drop 0 [JSBoolean True, JSBoolean False, JSNull]) ?c
              = Inr (Push (ArgInt 0) (Push (ArgBool False) (Push (ArgBool True) ?c)))
            \<and> echo_native (arguments (Push (ArgInt 0) (Push (ArgBool False) (Push (ArgBool True) ?c))))
              = Inr [ArgBool True, ArgBool False, ArgInt 0]"
    by (simp add: echo_native_def Push_def)
  show ?thesis
    using C5_result_convention [of keep_exact 0 "[]" ?c ?c echo_native "[]" show_arg] p0
      C5_result_convention [of keep_exact 0 "[JSBoolean True]" ?c "Push (ArgBool True) ?c" echo_native
        "[ArgBool True]" show_arg] p1
      C5_result_convention [of keep_exact 0 "[JSBoolean True, JSBoolean False, JSNull]" ?c
        "Push (ArgInt 0) (Push (ArgBool False) (Push (ArgBool True) ?c))" echo_native
        "[ArgBool True, ArgBool False, ArgInt 0]" show_arg] p3
    by simp
qed

section \<open>Properties of routine registration\<close>

lemmas setter_defs =
  SetTickRoutine_def SetEventRoutine_def SetCallRefRoutine_def SetDuplicateRefRoutine_def
  SetDeleteRefRoutine_def SetStackTraceRoutine_def SetUnhandledPromiseRejectionRoutine_def

lemma set_routine_fills: "slot k rt = None \<Longrightarrow> slot k (set_routine k f rt) = Some f"
  by (cases k) (simp_all add: setter_defs)

lemma set_routine_noop: "slot k rt = Some f \<Longrightarrow> set_routine k f' rt = rt"
  by (cases k) (simp_all add: setter_defs)

lemma set_routine_other: "k' \<noteq> k \<Longrightarrow> slot k (set_routine k' f' rt) = slot k rt"
  by (cases k; cases k') (simp_all add: setter_defs)

lemma set_routine_keeps: "slot k rt = Some f \<Longrightarrow> slot k (set_routine k' f' rt) = Some f"
  by (cases "k' = k") (simp_all add: set_routine_noop set_routine_other)

lemma register_all_keeps: "slot k rt = Some f \<Longrightarrow> slot k (register_all ops rt) = Some f"
  by (induction ops arbitrary: rt) (simp_all add: set_routine_keeps)

section \<open>What the engine records of a dispatch\<close>

lemma called_emit:
  "called (emit ev e) = called e @ (case ev of Called f as \<Rightarrow> [f] | _ \<Rightarrow> [])"
  by (simp add: called_def emit_def)

lemma called_current: "called (e\<lparr> g_currentV8Runtime := x \<rparr>) = called e"
  by (simp add: called_def)

lemma called_running: "called (e\<lparr> running_microtasks := x \<rparr>) = called e"
  by (simp add: called_def)

lemma called_RunMicrotasks: "called (RunMicrotasks no_microtasks rt e) = called e"
  by (simp add: RunMicrotasks_def PerformCheckpoint_def no_microtasks_def Let_def called_emit
      called_running)

lemma called_enter: "called (snd (V8PushEnvironment_enter rt e)) = called e"
  by (simp add: V8PushEnvironment_enter_def called_emit called_current)

lemma called_exit: "called (V8PushEnvironment_exit no_microtasks p rt e) = called e"
  by (simp add: V8PushEnvironment_exit_def Let_def called_emit called_current called_RunMicrotasks)

lemma called_in_scope:
  "called (snd (in_scope no_microtasks rt body e)) = called (snd (body (snd (V8PushEnvironment_enter rt e))))"
  by (simp add: in_scope_def Let_def called_exit)

lemma called_trace: "called (ScriptTrace_error what rt str stack e) = called e"
  by (simp add: ScriptTrace_error_def called_emit)

lemma called_frames: "called (foldl (\<lambda>e'' fr. emit (Frame fr) e'') e frs) = called e"
  by (induction frs arbitrary: e) (simp_all add: called_emit)

lemma called_tick: "called (tick_closure g rt f e) = called e @ [f]"
  by (simp add: tick_closure_def Call_def Let_def called_emit called_trace split: call_result.split)

lemma called_event: "called (event_closure g rt f n p s e) = called e @ [f]"
  by (simp add: event_closure_def Call_def Let_def called_emit called_trace split: call_result.split)

lemma called_callRef: "called (snd (callRef_closure g rt f i a e)) = called e @ [f]"
  by (simp add: callRef_closure_def Call_def Let_def called_emit called_trace split: call_result.split)

lemma called_deleteRef: "called (deleteRef_closure g rt f i e) = called e @ [f]"
  by (simp add: deleteRef_closure_def Call_def Let_def called_emit called_trace split: call_result.split)

lemma called_duplicateRef: "called (snd (duplicateRef_closure g rt f i e)) = called e @ [f]"
  by (simp add: duplicateRef_closure_def Call_def Let_def called_emit called_trace split: call_result.split)

lemma called_stackTrace: "called (snd (stackTrace_closure g rt f s t e)) = called e @ [f]"
  by (simp add: stackTrace_closure_def Call_def Let_def called_emit called_trace split: call_result.split)

lemma called_rejection: "called (rejection_closure g rt f ev p v e) = called e @ [f]"
  by (simp add: rejection_closure_def Call_def Let_def called_emit split: call_result.split)

lemma called_run_dispatch:
  assumes "slot (kind_of d) rt = Some f"
  shows "called (run_dispatch g unpack d rt e) = called e @ [f]"
proof (cases d)
  case DoTick
  then show ?thesis using assms
    by (simp add: Tick_def called_in_scope called_tick called_enter)
next
  case (DoTriggerEvent n p s)
  then show ?thesis using assms
    by (simp add: TriggerEvent_def called_in_scope called_event called_enter)
next
  case (DoCallRef i a)
  then show ?thesis using assms
    by (simp add: CallRef_def called_in_scope Let_def called_callRef called_enter)
next
  case (DoDuplicateRef i)
  then show ?thesis using assms
    by (simp add: DuplicateRef_def called_in_scope Let_def called_duplicateRef called_enter)
next
  case (DoRemoveRef i)
  then show ?thesis using assms
    by (simp add: RemoveRef_def called_in_scope called_deleteRef called_enter)
next
  case (DoWalkStack s t)
  then show ?thesis using assms
    by (simp add: WalkStack_def called_in_scope Let_def called_frames called_stackTrace called_enter
        split: option.split)
next
  case (DoPromiseRejection ev p v)
  then show ?thesis using assms
    by (simp add: HandlePromiseRejection_def called_rejection)
qed

text \<open>
  C7. For each of the seven kinds: once a callable \<open>f\<close> has been registered in an empty
  slot, the slot holds \<open>f\<close> after any further run of registrations of any kinds; a
  further registration of the same kind leaves the whole runtime as it is; and an
  invocation of the routine of that kind calls \<open>f\<close> and nothing else.
\<close>

theorem C7_first_registration_wins:
  "slot k rt = None \<and> kind_of d = k \<longrightarrow>
     slot k (register_all later (set_routine k f rt)) = Some f \<and>
     set_routine k f' (register_all later (set_routine k f rt)) = register_all later (set_routine k f rt) \<and>
     called (run_dispatch g unpack d (register_all later (set_routine k f rt)) e) = called e @ [f]"
proof (intro impI)
  assume h: "slot k rt = None \<and> kind_of d = k"
  let ?rt = "register_all later (set_routine k f rt)"
  have kept: "slot k ?rt = Some f"
    using h by (intro register_all_keeps set_routine_fills) simp
  moreover have "set_routine k f' ?rt = ?rt"
    using kept by (rule set_routine_noop)
  moreover have "called (run_dispatch g unpack d ?rt e) = called e @ [f]"
    using kept h by (intro called_run_dispatch) simp
  ultimately show "slot k ?rt = Some f \<and> set_routine k f' ?rt = ?rt \<and>
     called (run_dispatch g unpack d ?rt e) = called e @ [f]"
    by blast
qed

text \<open>
  The tick function 11 is registered first; 22 and 33 are offered later for the same
  slot, among others. The tick calls 11.
\<close>

theorem C7_first_registration_wins_witness:
  "slot TickKind (runtime_new 0 ''res'') = None \<and> kind_of DoTick = TickKind \<and>
   m_tickRoutine (register_all [(TickKind, 22), (EventKind, 5), (TickKind, 33)]
       (SetTickRoutine 11 (runtime_new 0 ''res''))) = Some 11 \<and>
   called (snd (Tick (returns_always JSUndefined)
       (register_all [(TickKind, 22), (EventKind, 5), (TickKind, 33)]
          (SetTickRoutine 11 (runtime_new 0 ''res''))) engine_idle)) = [11]"
proof -
  have h: "slot TickKind (runtime_new 0 ''res'') = None \<and> kind_of DoTick = TickKind"
    by (simp add: runtime_new_def)
  have idle: "called engine_idle = []"
    by (simp add: called_def engine_idle_def)
  show ?thesis
    using C7_first_registration_wins [of TickKind "runtime_new 0 ''res''" DoTick
        "[(TickKind, 22), (EventKind, 5), (TickKind, 33)]" 11 44 "returns_always JSUndefined"
        no_frames engine_idle] h idle
    by simp
qed

section \<open>Properties of dispatch on an empty slot, and of \<open>DuplicateRef\<close>\<close>

lemma DuplicateRef_set:
  "m_duplicateRefRoutine rt = Some f \<Longrightarrow>
   fst (DuplicateRef g rt refIdx e) =
     (FX_S_OK,
      case g f [Int32_New refIdx] of
        Threw str stack \<Rightarrow> - 1
      | Returned v \<Rightarrow> if IsInt32 v then Value_Int32Value v else - 1)"
  by (simp add: DuplicateRef_def in_scope_def duplicateRef_closure_def Call_def Let_def
      split: call_result.split)

lemma sint_int32:
  "- (2 ^ 31) \<le> n \<Longrightarrow> n < 2 ^ 31 \<Longrightarrow> sint (word_of_int n :: 32 word) = n"
  by (simp add: sint_sbintrunc' signed_take_bit_int_eq_self)

text \<open>
  C10. With its slot empty, each dispatch operation returns \<open>FX_S_OK\<close> and leaves the
  engine exactly as it was: no scope is entered, nothing is called, nothing is
  traced. \<open>CallRef\<close> leaves \<open>*retval\<close> null and \<open>DuplicateRef\<close> leaves \<open>*outRefIdx\<close> at
  \<open>-1\<close>. A \<open>DuplicateRef\<close> whose routine is set and throws gives the same result and
  index, so the two cases look the same to the caller.
\<close>

theorem C10_unset_slot_is_success:
  "(m_tickRoutine rt = None \<longrightarrow> Tick g rt e = (FX_S_OK, e)) \<and>
   (m_eventRoutine rt = None \<longrightarrow> TriggerEvent g rt name payload source e = (FX_S_OK, e)) \<and>
   (m_callRefRoutine rt = None \<longrightarrow> CallRef g rt refIdx args e = ((FX_S_OK, None), e)) \<and>
   (m_duplicateRefRoutine rt = None \<longrightarrow> DuplicateRef g rt refIdx e = ((FX_S_OK, - 1), e)) \<and>
   (m_deleteRefRoutine rt = None \<longrightarrow> RemoveRef g rt refIdx e = (FX_S_OK, e)) \<and>
   (m_stackTraceRoutine rt = None \<longrightarrow> WalkStack g unpack rt start finish e = (FX_S_OK, e)) \<and>
   (m_duplicateRefRoutine rt = None \<and> m_duplicateRefRoutine rt' = Some f \<and>
    g f [Int32_New refIdx] = Threw str stack \<longrightarrow>
      fst (DuplicateRef g rt' refIdx e) = fst (DuplicateRef g rt refIdx e))"
proof -
  have "m_duplicateRefRoutine rt = None \<and> m_duplicateRefRoutine rt' = Some f \<and>
        g f [Int32_New refIdx] = Threw str stack \<longrightarrow>
          fst (DuplicateRef g rt' refIdx e) = fst (DuplicateRef g rt refIdx e)"
  proof
    assume h: "m_duplicateRefRoutine rt = None \<and> m_duplicateRefRoutine rt' = Some f \<and>
        g f [Int32_New refIdx] = Threw str stack"
    then have "fst (DuplicateRef g rt' refIdx e) = (FX_S_OK, - 1)"
      by (simp add: DuplicateRef_set)
    moreover have "fst (DuplicateRef g rt refIdx e) = (FX_S_OK, - 1)"
      using h by (simp add: DuplicateRef_def)
    ultimately show "fst (DuplicateRef g rt' refIdx e) = fst (DuplicateRef g rt refIdx e)"
      by simp
  qed
  then show ?thesis
    by (simp add: Tick_def TriggerEvent_def CallRef_def DuplicateRef_def RemoveRef_def WalkStack_def)
qed

text \<open>
  A fresh runtime has every slot empty. The second runtime has a duplicate-ref routine
  that throws.
\<close>

theorem C10_unset_slot_is_success_witness:
  "m_tickRoutine (runtime_new 0 ''res'') = None \<and>
   m_duplicateRefRoutine (SetDuplicateRefRoutine 9 (runtime_new 1 ''res'')) = Some 9 \<and>
   Tick throws_always (runtime_new 0 ''res'') engine_idle = (FX_S_OK, engine_idle) \<and>
   TriggerEvent throws_always (runtime_new 0 ''res'') ''ev'' ''p'' ''src'' engine_idle = (FX_S_OK, engine_idle) \<and>
   CallRef throws_always (runtime_new 0 ''res'') 3 ''args'' engine_idle = ((FX_S_OK, None), engine_idle) \<and>
   DuplicateRef throws_always (runtime_new 0 ''res'') 3 engine_idle = ((FX_S_OK, - 1), engine_idle) \<and>
   RemoveRef throws_always (runtime_new 0 ''res'') 3 engine_idle = (FX_S_OK, engine_idle) \<and>
   WalkStack throws_always no_frames (runtime_new 0 ''res'') None None engine_idle = (FX_S_OK, engine_idle) \<and>
   fst (DuplicateRef throws_always (SetDuplicateRefRoutine 9 (runtime_new 1 ''res'')) 3 engine_idle)
     = (FX_S_OK, - 1)"
proof -
  have empty: "m_tickRoutine (runtime_new 0 ''res'') = None \<and> m_eventRoutine (runtime_new 0 ''res'') = None \<and>
      m_callRefRoutine (runtime_new 0 ''res'') = None \<and> m_duplicateRefRoutine (runtime_new 0 ''res'') = None \<and>
      m_deleteRefRoutine (runtime_new 0 ''res'') = None \<and> m_stackTraceRoutine (runtime_new 0 ''res'') = None"
    by (simp add: runtime_new_def)
  have set: "m_duplicateRefRoutine (SetDuplicateRefRoutine 9 (runtime_new 1 ''res'')) = Some 9"
    by (simp add: runtime_new_def SetDuplicateRefRoutine_def)
  have thr: "throws_always 9 [Int32_New 3] = Threw ''Error: boom'' ''at boom''"
    by (simp add: throws_always_def)
  show ?thesis
    using C10_unset_slot_is_success [of "runtime_new 0 ''res''" throws_always engine_idle
        "''ev''" "''p''" "''src''" 3 "''args''" no_frames None None
        "SetDuplicateRefRoutine 9 (runtime_new 1 ''res'')" 9 "''Error: boom''" "''at boom''"]
      empty set thr
    by simp
qed

text \<open>
  C6, as the claim states it, fails on the integer \<open>2^31\<close>: the routine returns it, it is
  not an \<open>Int32\<close>, and \<open>DuplicateRef\<close> answers \<open>-1\<close>.
\<close>

theorem C6_integer_out_of_range_counterexample:
  "fst (DuplicateRef (returns_always (JSNumber (DFin 2147483648)))
          (SetDuplicateRefRoutine 9 (runtime_new 1 ''res'')) 3 engine_idle) = (FX_S_OK, - 1)
   \<and> sint (- 1 :: 32 word) \<noteq> 2147483648"
proof -
  have set: "m_duplicateRefRoutine (SetDuplicateRefRoutine 9 (runtime_new 1 ''res'')) = Some 9"
    by (simp add: runtime_new_def SetDuplicateRefRoutine_def)
  have "fst (DuplicateRef (returns_always (JSNumber (DFin 2147483648)))
          (SetDuplicateRefRoutine 9 (runtime_new 1 ''res'')) 3 engine_idle)
        = (FX_S_OK,
           case returns_always (JSNumber (DFin 2147483648)) 9 [Int32_New 3] of
             Threw str stack \<Rightarrow> - 1
           | Returned v \<Rightarrow> if IsInt32 v then Value_Int32Value v else - 1)"
    using set by (rule DuplicateRef_set)
  then show ?thesis
    by (simp add: returns_always_def trunc_rat_def)
qed

text \<open>
  C6, amended. With the duplicate-ref routine set, \<open>DuplicateRef\<close> returns \<open>FX_S_OK\<close>
  and: \<open>-1\<close> when the routine throws; \<open>-1\<close> when it returns a value that is not an
  \<open>Int32\<close> (not a number, a fraction, negative zero, or an integer outside the signed
  32-bit range); and \<open>n\<close> itself when it returns an integer \<open>n\<close> of the signed 32-bit
  range (zero being positive zero).
\<close>

theorem C6_DuplicateRef_result:
  "m_duplicateRefRoutine rt = Some f \<longrightarrow>
     (g f [Int32_New refIdx] = Threw str stack \<longrightarrow>
        fst (DuplicateRef g rt refIdx e) = (FX_S_OK, - 1)) \<and>
     (g f [Int32_New refIdx] = Returned v \<and> \<not> IsInt32 v \<longrightarrow>
        fst (DuplicateRef g rt refIdx e) = (FX_S_OK, - 1)) \<and>
     (g f [Int32_New refIdx] = Returned (JSNumber DNegZero) \<longrightarrow>
        fst (DuplicateRef g rt refIdx e) = (FX_S_OK, - 1)) \<and>
     (g f [Int32_New refIdx] = Returned (JSNumber (DFin (of_int n))) \<and> - (2 ^ 31) \<le> n \<and> n < 2 ^ 31 \<longrightarrow>
        fst (DuplicateRef g rt refIdx e) = (FX_S_OK, word_of_int n) \<and>
        sint (word_of_int n :: 32 word) = n)"
proof (intro impI conjI)
  assume s: "m_duplicateRefRoutine rt = Some f"
  {
    assume "g f [Int32_New refIdx] = Threw str stack"
    then show "fst (DuplicateRef g rt refIdx e) = (FX_S_OK, - 1)"
      by (simp add: DuplicateRef_set [OF s])
  }
  {
    assume "g f [Int32_New refIdx] = Returned v \<and> \<not> IsInt32 v"
    then show "fst (DuplicateRef g rt refIdx e) = (FX_S_OK, - 1)"
      by (simp add: DuplicateRef_set [OF s])
  }
  {
    assume "g f [Int32_New refIdx] = Returned (JSNumber DNegZero)"
    then show "fst (DuplicateRef g rt refIdx e) = (FX_S_OK, - 1)"
      by (simp add: DuplicateRef_set [OF s])
  }
  {
    assume h: "g f [Int32_New refIdx] = Returned (JSNumber (DFin (of_int n))) \<and> - (2 ^ 31) \<le> n \<and> n < 2 ^ 31"
    then show "fst (DuplicateRef g rt refIdx e) = (FX_S_OK, word_of_int n)"
      by (simp add: DuplicateRef_set [OF s] trunc_rat_of_int Int32Value_def)
    show "sint (word_of_int n :: 32 word) = n"
      using h by (simp add: sint_int32)
  }
qed

text \<open>
  The routine returns 7 and \<open>DuplicateRef\<close> returns 7; it throws, returns a string or
  returns negative zero, and \<open>DuplicateRef\<close> returns \<open>-1\<close>.
\<close>

theorem C6_DuplicateRef_result_witness:
  "m_duplicateRefRoutine (SetDuplicateRefRoutine 9 (runtime_new 1 ''res'')) = Some 9 \<and>
   fst (DuplicateRef (returns_always (JSNumber (DFin 7)))
          (SetDuplicateRefRoutine 9 (runtime_new 1 ''res'')) 3 engine_idle) = (FX_S_OK, 7) \<and>
   fst (DuplicateRef throws_always
          (SetDuplicateRefRoutine 9 (runtime_new 1 ''res'')) 3 engine_idle) = (FX_S_OK, - 1) \<and>
   fst (DuplicateRef (returns_always (JSString ''seven''))
          (SetDuplicateRefRoutine 9 (runtime_new 1 ''res'')) 3 engine_idle) = (FX_S_OK, - 1) \<and>
   fst (DuplicateRef (returns_always (JSNumber DNegZero))
          (SetDuplicateRefRoutine 9 (runtime_new 1 ''res'')) 3 engine_idle) = (FX_S_OK, - 1)"
proof -
  let ?rt = "SetDuplicateRefRoutine 9 (runtime_new 1 ''res'')"
  have set: "m_duplicateRefRoutine ?rt = Some 9"
    by (simp add: runtime_new_def SetDuplicateRefRoutine_def)
  have seven: "returns_always (JSNumber (DFin 7)) 9 [Int32_New 3] = Returned (JSNumber (DFin (of_int 7)))
               \<and> - (2 ^ 31) \<le> (7::int) \<and> (7::int) < 2 ^ 31"
    by (simp add: returns_always_def)
  have thr: "throws_always 9 [Int32_New 3] = Threw ''Error: boom'' ''at boom''"
    by (simp add: throws_always_def)
  have str: "returns_always (JSString ''seven'') 9 [Int32_New 3] = Returned (JSString ''seven'')
             \<and> \<not> IsInt32 (JSString ''seven'')"
    by (simp add: returns_always_def)
  have nz: "returns_always (JSNumber DNegZero) 9 [Int32_New 3] = Returned (JSNumber DNegZero)"
    by (simp add: returns_always_def)
  have d: "fst (DuplicateRef (returns_always (JSNumber DNegZero)) ?rt 3 engine_idle) = (FX_S_OK, - 1)"
    using C6_DuplicateRef_result [of ?rt 9 "returns_always (JSNumber DNegZero)" 3] set nz
    by blast
  have a: "fst (DuplicateRef (returns_always (JSNumber (DFin 7))) ?rt 3 engine_idle) = (FX_S_OK, word_of_int 7)"
    using C6_DuplicateRef_result [of ?rt 9 "returns_always (JSNumber (DFin 7))" 3 _ _ _ _ 7] set seven
    by blast
  have b: "fst (DuplicateRef throws_always ?rt 3 engine_idle) = (FX_S_OK, - 1)"
    using C6_DuplicateRef_result [of ?rt 9 throws_always 3 "''Error: boom''" "''at boom''"] set thr
    by blast
  have c: "fst (DuplicateRef (returns_always (JSString ''seven'')) ?rt 3 engine_idle) = (FX_S_OK, - 1)"
    using C6_DuplicateRef_result [of ?rt 9 "returns_always (JSString ''seven'')" 3 _ _ _ "JSString ''seven''"]
      set str by blast
  show ?thesis using set a b c d by simp
qed

section \<open>Properties of the environment scope\<close>











section \<open>Properties of function references\<close>

lemma c_str_without_nul: "CHR 0x00 \<notin> set s \<Longrightarrow> c_str s = s"
  by (auto simp add: c_str_def takeWhile_eq_all_conv)

lemma c_str_cut: "CHR 0x00 \<notin> set a \<Longrightarrow> c_str (a @ CHR 0x00 # b) = a"
  by (induction a) (auto simp add: c_str_def)

lemma trampoline_result:
  "V8_InvokeFunctionReference host refData (JSArrayBufferView kind store byteOffset byteLength) =
     (if FX_FAILED (fst (InvokeFunctionReference host (c_str (ref refData))
                           (take byteLength (drop byteOffset store))))
      then Inl (case GetLastErrorText host of None \<Rightarrow> ''Unknown'' | Some text \<Rightarrow> text)
      else Inr (Uint8Array_New
             (case snd (InvokeFunctionReference host (c_str (ref refData))
                          (take byteLength (drop byteOffset store))) of
                None \<Rightarrow> [] | Some buf \<Rightarrow> buf)))"
  by (simp add: V8_InvokeFunctionReference_def Uint8Array_New_def Let_def split: option.split)

lemma made_entry:
  "fst (V8_MakeFunctionReference rt arg0 (Some fn) st) = Some fn \<and>
   entries (snd (V8_MakeFunctionReference rt arg0 (Some fn) st)) (next_address st)
     = Some \<lparr> ref = refString_of arg0, handle = Some fn, runtime = self rt \<rparr>"
  by (simp add: V8_MakeFunctionReference_def Let_def)

text \<open>
  C1, as the claim states it, fails on an identifier with a NUL byte in it. The
  reference is made from the three bytes \<open>a\<close>, NUL, \<open>b\<close>; the host, which answers with
  the identifier it was given, answers \<open>a\<close>.
\<close>

theorem C1_identifier_with_nul_counterexample:
  "entries (snd (V8_MakeFunctionReference (runtime_new 0 ''res'')
       (Uint8Array_New [CHR ''a'', CHR 0x00, CHR ''b'']) (Some 7) ref_state_empty)) 0
     = Some \<lparr> ref = [CHR ''a'', CHR 0x00, CHR ''b''], handle = Some 7, runtime = 0 \<rparr> \<and>
   V8_InvokeFunctionReference echo_host
       \<lparr> ref = [CHR ''a'', CHR 0x00, CHR ''b''], handle = Some 7, runtime = 0 \<rparr> (Uint8Array_New ''P'')
     = Inr (Uint8Array_New ''a'')"
  by (simp add: V8_MakeFunctionReference_def refString_of_def Uint8Array_New_def ref_state_empty_def
      runtime_new_def Let_def V8_InvokeFunctionReference_def echo_host_def c_str_def FX_S_OK_def)

text \<open>
  C1, amended. \<open>V8_MakeFunctionReference\<close> returns the wrapper, and the entry behind it
  owns the identifier taken from the argument: the bytes a \<open>Uint8Array\<close> views (its
  offset and length respected), the bytes of a string up to its first NUL, and no
  bytes for anything else. Invoking the wrapper of an entry with identifier \<open>ident\<close>
  on a buffer view calls the host's \<open>InvokeFunctionReference\<close> with exactly the
  identifier as a NUL-terminated string and exactly the bytes the view covers. As a
  NUL-terminated string, an identifier without a NUL byte is itself, and an
  identifier with one is its bytes before the first NUL. When the host reports
  success the script receives exactly the bytes the host stored, or an empty buffer
  when it stored none; when the host reports failure a script error is thrown whose
  message is the host's last-error text (\<open>Unknown\<close> when the host supplies none).
\<close>

theorem C1_trampoline_forwards:
  "fst (V8_MakeFunctionReference rt arg (Some fn) st) = Some fn \<and>
   entries (snd (V8_MakeFunctionReference rt arg (Some fn) st)) (next_address st)
     = Some \<lparr> ref = refString_of arg, handle = Some fn, runtime = self rt \<rparr> \<and>
   refString_of (JSArrayBufferView Uint8ArrayKind store byteOffset byteLength)
     = take byteLength (drop byteOffset store) \<and>
   refString_of (JSArrayBufferView OtherViewKind store byteOffset byteLength) = [] \<and>
   refString_of (JSString s) = c_str s \<and>
   ((\<nexists>u. other = JSString u) \<and> (\<nexists>k m off len. other = JSArrayBufferView k m off len) \<longrightarrow>
      refString_of other = []) \<and>
   V8_InvokeFunctionReference host \<lparr> ref = ident, handle = h, runtime = r \<rparr>
       (JSArrayBufferView kind store byteOffset byteLength)
     = (if FX_FAILED (fst (InvokeFunctionReference host (c_str ident)
                             (take byteLength (drop byteOffset store))))
        then Inl (case GetLastErrorText host of None \<Rightarrow> ''Unknown'' | Some text \<Rightarrow> text)
        else Inr (Uint8Array_New
               (case snd (InvokeFunctionReference host (c_str ident)
                            (take byteLength (drop byteOffset store))) of
                  None \<Rightarrow> [] | Some buf \<Rightarrow> buf))) \<and>
   (CHR 0x00 \<notin> set ident \<longrightarrow> c_str ident = ident) \<and>
   (CHR 0x00 \<notin> set a \<longrightarrow> c_str (a @ CHR 0x00 # b) = a)"
proof -
  have views: "refString_of (JSArrayBufferView Uint8ArrayKind store byteOffset byteLength)
                 = take byteLength (drop byteOffset store) \<and>
               refString_of (JSArrayBufferView OtherViewKind store byteOffset byteLength) = [] \<and>
               refString_of (JSString s) = c_str s"
    by (simp add: refString_of_def)
  have rest: "(\<nexists>u. other = JSString u) \<and> (\<nexists>k m off len. other = JSArrayBufferView k m off len) \<longrightarrow>
      refString_of other = []"
    by (cases other) (simp_all add: refString_of_def)
  have call: "V8_InvokeFunctionReference host \<lparr> ref = ident, handle = h, runtime = r \<rparr>
       (JSArrayBufferView kind store byteOffset byteLength)
     = (if FX_FAILED (fst (InvokeFunctionReference host (c_str ident)
                             (take byteLength (drop byteOffset store))))
        then Inl (case GetLastErrorText host of None \<Rightarrow> ''Unknown'' | Some text \<Rightarrow> text)
        else Inr (Uint8Array_New
               (case snd (InvokeFunctionReference host (c_str ident)
                            (take byteLength (drop byteOffset store))) of
                  None \<Rightarrow> [] | Some buf \<Rightarrow> buf)))"
    by (simp add: trampoline_result)
  show ?thesis
    using made_entry [of rt arg fn st] views rest call c_str_without_nul [of ident]
      c_str_cut [of a b]
    by blast
qed

text \<open>
  The reference \<open>foo\<close>, invoked with a view of the bytes \<open>abc\<close> inside a larger
  buffer: a host that answers with the identifier, a colon and the payload reversed,
  and a host that fails. The reference made from \<open>ab\<close>, NUL, \<open>c\<close> reaches the host
  as \<open>ab\<close>.
\<close>

theorem C1_trampoline_forwards_witness:
  "CHR 0x00 \<notin> set ''foo'' \<and> CHR 0x00 \<notin> set ''ab'' \<and>
   entries (snd (V8_MakeFunctionReference (runtime_new 0 ''res'') (Uint8Array_New ''foo'') (Some 7)
       ref_state_empty)) 0 = Some \<lparr> ref = ''foo'', handle = Some 7, runtime = 0 \<rparr> \<and>
   V8_InvokeFunctionReference reverse_host \<lparr> ref = ''foo'', handle = Some 7, runtime = 0 \<rparr>
       (JSArrayBufferView Uint8ArrayKind ''xabcx'' 1 3) = Inr (Uint8Array_New ''foo:cba'') \<and>
   V8_InvokeFunctionReference failing_host \<lparr> ref = ''foo'', handle = Some 7, runtime = 0 \<rparr>
       (JSArrayBufferView Uint8ArrayKind ''xabcx'' 1 3) = Inl ''no such reference'' \<and>
   V8_InvokeFunctionReference reverse_host
       \<lparr> ref = ''ab'' @ CHR 0x00 # ''c'', handle = Some 7, runtime = 0 \<rparr>
       (JSArrayBufferView Uint8ArrayKind ''xabcx'' 1 3) = Inr (Uint8Array_New ''ab:cba'')"
proof -
  have nonul: "CHR 0x00 \<notin> set ''foo''" "CHR 0x00 \<notin> set ''ab''" by simp_all
  have r0: "self (runtime_new 0 ''res'') = 0" "next_address ref_state_empty = 0"
    by (simp_all add: runtime_new_def ref_state_empty_def)
  have foo: "c_str ''foo'' = ''foo''"
    using C1_trampoline_forwards [where ident = "''foo''"] nonul(1) by blast
  have cut: "c_str (''ab'' @ CHR 0x00 # ''c'') = ''ab''"
    using C1_trampoline_forwards [where a = "''ab''" and b = "''c''"] nonul(2) by blast
  have made: "entries (snd (V8_MakeFunctionReference (runtime_new 0 ''res'') (Uint8Array_New ''foo'')
                 (Some 7) ref_state_empty)) (next_address ref_state_empty)
               = Some \<lparr> ref = refString_of (Uint8Array_New ''foo''), handle = Some 7,
                        runtime = self (runtime_new 0 ''res'') \<rparr>"
    using C1_trampoline_forwards [where rt = "runtime_new 0 ''res''" and
        arg = "Uint8Array_New ''foo''" and fn = 7 and st = ref_state_empty]
    by blast
  have "refString_of (JSArrayBufferView Uint8ArrayKind ''foo'' 0 (length ''foo''))
          = take (length ''foo'') (drop 0 ''foo'')"
    using C1_trampoline_forwards [where store = "''foo''" and byteOffset = 0 and
        byteLength = "length ''foo''"] by blast
  then have rs: "refString_of (Uint8Array_New ''foo'') = ''foo''"
    by (simp add: Uint8Array_New_def)
  have c1: "V8_InvokeFunctionReference reverse_host \<lparr> ref = ''foo'', handle = Some 7, runtime = 0 \<rparr>
       (JSArrayBufferView Uint8ArrayKind ''xabcx'' 1 3) = Inr (Uint8Array_New ''foo:cba'')"
    using C1_trampoline_forwards [where store = "''xabcx''" and byteOffset = 1 and byteLength = 3
        and host = reverse_host and ident = "''foo''" and h = "Some 7" and r = 0 and kind = Uint8ArrayKind] foo
    by (simp add: reverse_host_def FX_S_OK_def)
  have c2: "V8_InvokeFunctionReference failing_host \<lparr> ref = ''foo'', handle = Some 7, runtime = 0 \<rparr>
       (JSArrayBufferView Uint8ArrayKind ''xabcx'' 1 3) = Inl ''no such reference''"
    using C1_trampoline_forwards [where store = "''xabcx''" and byteOffset = 1 and byteLength = 3
        and host = failing_host and ident = "''foo''" and h = "Some 7" and r = 0 and kind = Uint8ArrayKind] foo
    by (simp add: failing_host_def)
  have c3: "V8_InvokeFunctionReference reverse_host
       \<lparr> ref = ''ab'' @ CHR 0x00 # ''c'', handle = Some 7, runtime = 0 \<rparr>
       (JSArrayBufferView Uint8ArrayKind ''xabcx'' 1 3) = Inr (Uint8Array_New ''ab:cba'')"
    using C1_trampoline_forwards [where store = "''xabcx''" and byteOffset = 1 and byteLength = 3
        and host = reverse_host and ident = "''ab'' @ CHR 0x00 # ''c''" and h = "Some 7" and r = 0
        and kind = Uint8ArrayKind] cut
    by (simp add: reverse_host_def FX_S_OK_def)
  show ?thesis
    using nonul made rs r0 c1 c2 c3 by simp
qed

section \<open>Properties of deferred release\<close>

lemma dom_drain_loop: "dom (drain_loop q es) = dom es - set q"
  by (induction q arbitrary: es) auto

lemma dom_FnRefWeakCallback: "dom (entries (FnRefWeakCallback data st)) = dom (entries st)"
  by (auto simp add: FnRefWeakCallback_def Let_def split: option.splits)

lemma next_FnRefWeakCallback: "next_address (FnRefWeakCallback data st) = next_address st"
  by (simp add: FnRefWeakCallback_def Let_def split: option.splits)

text \<open>Every entry lies below the next address, so \<open>new\<close> never returns a live address.\<close>

definition below_next :: "ref_state \<Rightarrow> bool" where
  "below_next st = (\<forall>p. p \<in> dom (entries st) \<longrightarrow> p < next_address st)"

lemma below_next_step: "below_next st \<Longrightarrow> below_next (ref_step ev st)"
proof (cases ev)
  case (Make rt arg0 outFunction)
  assume "below_next st"
  then show ?thesis
    unfolding below_next_def Make
    by (cases outFunction) (auto simp add: V8_MakeFunctionReference_def Let_def less_Suc_eq)
next
  case (Collected data)
  assume "below_next st"
  then show ?thesis
    by (simp add: below_next_def Collected dom_FnRefWeakCallback next_FnRefWeakCallback)
next
  case DrainTick
  assume "below_next st"
  then show ?thesis
    by (simp add: below_next_def DrainTick OnTick_drain_def dom_drain_loop)
qed

lemma below_next_run: "below_next st \<Longrightarrow> below_next (ref_run evs st)"
  by (induction evs arbitrary: st) (simp_all add: below_next_step)

lemma step_keeps_entry:
  assumes "below_next st" and "p \<in> dom (entries st)" and "ev \<noteq> DrainTick"
  shows "p \<in> dom (entries (ref_step ev st))"
proof (cases ev)
  case (Make rt arg0 outFunction)
  have "p \<noteq> next_address st" using assms(1,2) by (auto simp add: below_next_def)
  then show ?thesis
    using assms(2) unfolding Make
    by (cases outFunction) (auto simp add: V8_MakeFunctionReference_def Let_def)
next
  case (Collected data)
  then show ?thesis using assms(2) by (simp add: dom_FnRefWeakCallback)
next
  case DrainTick
  then show ?thesis using assms(3) by simp
qed

lemma run_keeps_entry:
  "below_next st \<Longrightarrow> p \<in> dom (entries st) \<Longrightarrow> DrainTick \<notin> set evs \<Longrightarrow>
   p \<in> dom (entries (ref_run evs st))"
proof (induction evs arbitrary: st)
  case Nil
  then show ?case by simp
next
  case (Cons ev evs)
  have "ev \<noteq> DrainTick" using Cons.prems(3) by auto
  then have "p \<in> dom (entries (ref_step ev st))"
    using Cons.prems(1,2) by (intro step_keeps_entry)
  moreover have "below_next (ref_step ev st)"
    using Cons.prems(1) by (rule below_next_step)
  ultimately show ?case
    using Cons.IH [of "ref_step ev st"] Cons.prems(3) by simp
qed

text \<open>
  C2. The finalization callback frees nothing: on an existing entry it resets the handle
  and appends the entry's address to \<open>g_cleanUpFuncRefs\<close>, nothing else, and the
  same entries exist after it as before. The tick drain empties the queue and frees
  exactly the queued entries. Over any history of the registry, an entry that
  existed and exists no longer was freed by a drain: there is a drain tick in between.
\<close>

theorem C2_release_is_deferred:
  "(entries st data = Some entry \<longrightarrow>
      FnRefWeakCallback data st =
        st\<lparr> entries := (entries st)(data \<mapsto> entry\<lparr> handle := None \<rparr>),
            g_cleanUpFuncRefs := g_cleanUpFuncRefs st @ [data] \<rparr>) \<and>
   dom (entries (FnRefWeakCallback data st)) = dom (entries st) \<and>
   g_cleanUpFuncRefs (OnTick_drain st) = [] \<and>
   dom (entries (OnTick_drain st)) = dom (entries st) - set (g_cleanUpFuncRefs st) \<and>
   (p \<in> dom (entries (ref_run before ref_state_empty)) \<and>
    p \<notin> dom (entries (ref_run evs (ref_run before ref_state_empty))) \<longrightarrow> DrainTick \<in> set evs)"
proof -
  have a: "entries st data = Some entry \<longrightarrow>
      FnRefWeakCallback data st =
        st\<lparr> entries := (entries st)(data \<mapsto> entry\<lparr> handle := None \<rparr>),
            g_cleanUpFuncRefs := g_cleanUpFuncRefs st @ [data] \<rparr>"
    by (simp add: FnRefWeakCallback_def Let_def)
  have d: "g_cleanUpFuncRefs (OnTick_drain st) = [] \<and>
        dom (entries (OnTick_drain st)) = dom (entries st) - set (g_cleanUpFuncRefs st)"
    by (simp add: OnTick_drain_def dom_drain_loop)
  have "below_next ref_state_empty"
    by (simp add: below_next_def ref_state_empty_def)
  then have inv: "below_next (ref_run before ref_state_empty)"
    by (rule below_next_run)
  have t: "p \<in> dom (entries (ref_run before ref_state_empty)) \<and>
    p \<notin> dom (entries (ref_run evs (ref_run before ref_state_empty))) \<longrightarrow> DrainTick \<in> set evs"
    using run_keeps_entry [OF inv, of p evs] by blast
  show ?thesis
    using a d t dom_FnRefWeakCallback [of data st] by blast
qed

text \<open>
  The reference \<open>foo\<close> is made, its wrapper is collected, and the host ticks: the entry
  is still there after the callback, with its handle reset and its address queued, and
  gone after the drain.
\<close>

theorem C2_release_is_deferred_witness:
  "entries (ref_run [Make (runtime_new 0 ''res'') (JSString ''foo'') (Some 7)] ref_state_empty) 0
     = Some \<lparr> ref = ''foo'', handle = Some 7, runtime = 0 \<rparr> \<and>
   entries (FnRefWeakCallback 0
       (ref_run [Make (runtime_new 0 ''res'') (JSString ''foo'') (Some 7)] ref_state_empty)) 0
     = Some \<lparr> ref = ''foo'', handle = None, runtime = 0 \<rparr> \<and>
   g_cleanUpFuncRefs (FnRefWeakCallback 0
       (ref_run [Make (runtime_new 0 ''res'') (JSString ''foo'') (Some 7)] ref_state_empty)) = [0] \<and>
   0 \<in> dom (entries (ref_run [Make (runtime_new 0 ''res'') (JSString ''foo'') (Some 7)] ref_state_empty)) \<and>
   0 \<notin> dom (entries (ref_run [Collected 0, DrainTick]
       (ref_run [Make (runtime_new 0 ''res'') (JSString ''foo'') (Some 7)] ref_state_empty))) \<and>
   DrainTick \<in> set [Collected 0, DrainTick]"
proof -
  let ?st = "ref_run [Make (runtime_new 0 ''res'') (JSString ''foo'') (Some 7)] ref_state_empty"
  have made: "snd (V8_MakeFunctionReference (runtime_new 0 ''res'') (JSString ''foo'') (Some 7) ref_state_empty)
        = \<lparr> entries = [0 \<mapsto> \<lparr> ref = ''foo'', handle = Some 7, runtime = 0 \<rparr>],
             next_address = 1, g_cleanUpFuncRefs = [] \<rparr>"
    by (simp add: V8_MakeFunctionReference_def refString_of_def c_str_def ref_state_empty_def
        runtime_new_def Let_def)
  have st: "?st = \<lparr> entries = [0 \<mapsto> \<lparr> ref = ''foo'', handle = Some 7, runtime = 0 \<rparr>],
                     next_address = 1, g_cleanUpFuncRefs = [] \<rparr>"
    by (simp add: made)
  have e0: "entries ?st 0 = Some \<lparr> ref = ''foo'', handle = Some 7, runtime = 0 \<rparr>"
    by (simp add: made)
  have gone: "0 \<notin> dom (entries (ref_run [Collected 0, DrainTick] ?st))"
    by (simp add: made FnRefWeakCallback_def OnTick_drain_def Let_def)
  have cb: "FnRefWeakCallback 0 ?st =
        ?st\<lparr> entries := (entries ?st)(0 \<mapsto> \<lparr> ref = ''foo'', handle = Some 7, runtime = 0 \<rparr>\<lparr> handle := None \<rparr>),
            g_cleanUpFuncRefs := g_cleanUpFuncRefs ?st @ [0] \<rparr>"
    using C2_release_is_deferred [of ?st 0 "\<lparr> ref = ''foo'', handle = Some 7, runtime = 0 \<rparr>"] e0
    by blast
  have tick: "DrainTick \<in> set [Collected 0, DrainTick]"
    using C2_release_is_deferred [of _ _ _ 0 "[Make (runtime_new 0 ''res'') (JSString ''foo'') (Some 7)]"
        "[Collected 0, DrainTick]"] e0 gone
    by blast
  have h0: "entries (FnRefWeakCallback 0 ?st) 0 = Some \<lparr> ref = ''foo'', handle = None, runtime = 0 \<rparr>"
    by (subst cb) (simp add: made)
  have q0: "g_cleanUpFuncRefs (FnRefWeakCallback 0 ?st) = [0]"
    by (subst cb) (simp add: made)
  have indom: "0 \<in> dom (entries ?st)"
    using e0 by blast
  show ?thesis
    using e0 h0 q0 indom gone tick by blast
qed


end
